theory Spec2Isabelle
  imports Main
begin

section \<open>Errors, results and panics\<close>

text \<open>
  Go errors as values. \<open>NotFound\<close> is the API status error that
  \<open>apierrors.IsNotFound\<close> recognises, \<open>OtherError\<close> any other error of a collaborator,
  \<open>ErrorsNew\<close> is \<open>errors.New\<close> and \<open>Wrapped\<close> is \<open>errors.Wrap\<close>/\<open>errors.Wrapf\<close>.
\<close>

datatype error = NotFound | OtherError string | ErrorsNew string | Wrapped error string

fun IsNotFound :: "error \<Rightarrow> bool" where
  "IsNotFound NotFound = True"
| "IsNotFound (Wrapped e msg) = IsNotFound e"
| "IsNotFound (OtherError msg) = False"
| "IsNotFound (ErrorsNew msg) = False"

text \<open>\<open>ctrl.Result\<close>; durations are \<open>time.Duration\<close> values, counted in nanoseconds.\<close>

record result =
  Requeue :: bool
  RequeueAfter :: int

definition Second :: int where
  "Second = 1000000000"

definition empty_result :: result where
  "empty_result = \<lparr>Requeue = False, RequeueAfter = 0\<rparr>"

datatype panic = NilPointerDereference | PanicString string

text \<open>How an invocation of \<open>Reconcile\<close> ends: it returns its pair, or it panics.\<close>

datatype outcome = Returned result "error option" | Panicked panic

section \<open>Objects of the control-plane API\<close>

type_synonym bytes = string

text \<open>An object key is (namespace, name).\<close>

type_synonym object_key = "string \<times> string"

datatype condition_type =
    ReadyCondition
  | VMProvisionedCondition
  | BootstrapExecSucceededCondition
  | ControlPlaneInitializedCondition

datatype condition_status = ConditionTrue | ConditionFalse | ConditionUnknown

datatype condition_severity =
    ConditionSeverityError
  | ConditionSeverityWarning
  | ConditionSeverityInfo
  | ConditionSeverityNone

datatype condition_reason =
    NoReason
  | WaitingForClusterInfrastructureReason
  | WaitingForControlPlaneAvailableReason
  | WaitingForBootstrapDataReason
  | DeletingReason
  | BootstrappingReason
  | BootstrapFailedReason

text \<open>
  A condition without its type and its transition time: the conditions of an object are
  kept as a map from the condition type, which is how \<open>conditions.Get\<close>, \<open>Has\<close>,
  \<open>IsTrue\<close> and \<open>Set\<close> address them.
\<close>

record condition =
  Status :: condition_status
  Severity :: condition_severity
  Reason :: condition_reason
  Message :: string

type_synonym conditions = "condition_type \<rightharpoonup> condition"

datatype machine_address_type = MachineHostName | MachineInternalIP | MachineExternalIP

type_synonym machine_address = "machine_address_type \<times> string"

text \<open>\<open>infrav1.KubevirtMachine\<close>: the fields the controller reads or writes.\<close>

record kubevirt_machine =
  km_APIVersion :: string
  km_Kind :: string
  km_Name :: string
  km_Namespace :: string
  km_UID :: string
  km_Finalizers :: "string list"
  km_DeletionTimestamp :: "nat option"
  Spec_ProviderID :: "string option"
  Spec_Bootstrapped :: bool
  Status_Ready :: bool
  Status_Addresses :: "machine_address list"
  Status_Conditions :: conditions

definition empty_KubevirtMachine :: kubevirt_machine where
  "empty_KubevirtMachine =
     \<lparr>km_APIVersion = [], km_Kind = [], km_Name = [], km_Namespace = [], km_UID = [],
      km_Finalizers = [], km_DeletionTimestamp = None, Spec_ProviderID = None,
      Spec_Bootstrapped = False, Status_Ready = False, Status_Addresses = [],
      Status_Conditions = Map.empty\<rparr>"

text \<open>
  \<open>DeletionTimestamp.IsZero()\<close> on a \<open>*metav1.Time\<close>: true for the nil pointer and
  for Go's zero time, which is \<open>Some 0\<close> here.
\<close>

definition IsZero :: "nat option \<Rightarrow> bool" where
  "IsZero t = (case t of None \<Rightarrow> True | Some n \<Rightarrow> n = 0)"

text \<open>\<open>clusterv1.Machine\<close>.\<close>

record machine =
  m_Name :: string
  m_Namespace :: string
  m_Labels :: "string \<rightharpoonup> string"
  Bootstrap_DataSecretName :: "string option"
  m_InfrastructureRef_Name :: string

text \<open>
  \<open>clusterv1.Cluster\<close>. \<open>Spec.InfrastructureRef\<close> is a pointer to an object reference;
  only the reference's name is read, so \<open>None\<close> is the nil pointer and \<open>Some n\<close> a
  reference named \<open>n\<close>.
\<close>

record cluster =
  c_Name :: string
  c_InfrastructureRef :: "string option"
  c_InfrastructureReady :: bool
  c_Conditions :: conditions

text \<open>\<open>infrav1.KubevirtCluster\<close>.\<close>

record kubevirt_cluster =
  kc_Name :: string
  kc_Namespace :: string

record owner_reference =
  or_APIVersion :: string
  or_Kind :: string
  or_Name :: string
  or_UID :: string

datatype secret_type = NoSecretType | ClusterSecretType

text \<open>\<open>corev1.Secret\<close>.\<close>

record secret =
  s_Name :: string
  s_Namespace :: string
  s_Type :: secret_type
  s_Data :: "string \<rightharpoonup> bytes"
  s_OwnerReferences :: "owner_reference list"

definition empty_Secret :: secret where
  "empty_Secret =
     \<lparr>s_Name = [], s_Namespace = [], s_Type = NoSecretType, s_Data = Map.empty,
      s_OwnerReferences = []\<rparr>"

text \<open>\<open>context.MachineContext\<close>: the four objects of one request.\<close>

record machine_context =
  ctx_Cluster :: cluster
  ctx_KubevirtCluster :: kubevirt_cluster
  ctx_Machine :: machine
  ctx_KubevirtMachine :: kubevirt_machine

record cluster_node_ssh_keys =
  PublicKey :: bytes
  PrivateKey :: bytes

record vm_command_executor =
  ex_IPAddress :: string
  ex_PublicKey :: bytes
  ex_PrivateKey :: bytes

text \<open>A client of the workload cluster, named by the REST configuration it was built from.\<close>

datatype rest_config = RestConfig bytes

datatype workload_client = WorkloadClient rest_config

section \<open>Conditions and finalizers\<close>

text \<open>
  The constant of \<open>api/v1alpha4\<close>; no proof depends on its value.
\<close>

definition MachineFinalizer :: string where
  "MachineFinalizer = ''kubevirtmachine.infrastructure.cluster.x-k8s.io''"

definition MachineControlPlaneLabelName :: string where
  "MachineControlPlaneLabelName = ''cluster.x-k8s.io/control-plane''"

definition ClusterLabelName :: string where
  "ClusterLabelName = ''cluster.x-k8s.io/cluster-name''"

definition ContainsFinalizer :: "kubevirt_machine \<Rightarrow> string \<Rightarrow> bool" where
  "ContainsFinalizer obj f = (f \<in> set (km_Finalizers obj))"

definition AddFinalizer :: "kubevirt_machine \<Rightarrow> string \<Rightarrow> kubevirt_machine" where
  "AddFinalizer obj f =
     (if f \<in> set (km_Finalizers obj) then obj
      else obj\<lparr>km_Finalizers := km_Finalizers obj @ [f]\<rparr>)"

definition RemoveFinalizer :: "kubevirt_machine \<Rightarrow> string \<Rightarrow> kubevirt_machine" where
  "RemoveFinalizer obj f = obj\<lparr>km_Finalizers := filter (\<lambda>g. g \<noteq> f) (km_Finalizers obj)\<rparr>"

definition TrueCondition :: condition where
  "TrueCondition =
     \<lparr>Status = ConditionTrue, Severity = ConditionSeverityNone, Reason = NoReason,
      Message = []\<rparr>"

definition FalseCondition ::
  "condition_reason \<Rightarrow> condition_severity \<Rightarrow> string \<Rightarrow> condition" where
  "FalseCondition r sev msg =
     \<lparr>Status = ConditionFalse, Severity = sev, Reason = r, Message = msg\<rparr>"

definition MarkTrue :: "kubevirt_machine \<Rightarrow> condition_type \<Rightarrow> kubevirt_machine" where
  "MarkTrue obj t = obj\<lparr>Status_Conditions := (Status_Conditions obj)(t \<mapsto> TrueCondition)\<rparr>"

definition MarkFalse ::
  "kubevirt_machine \<Rightarrow> condition_type \<Rightarrow> condition_reason \<Rightarrow> condition_severity \<Rightarrow>
     string \<Rightarrow> kubevirt_machine" where
  "MarkFalse obj t r sev msg =
     obj\<lparr>Status_Conditions := (Status_Conditions obj)(t \<mapsto> FalseCondition r sev msg)\<rparr>"

definition Has :: "conditions \<Rightarrow> condition_type \<Rightarrow> bool" where
  "Has cs t = (cs t \<noteq> None)"

definition IsTrue :: "conditions \<Rightarrow> condition_type \<Rightarrow> bool" where
  "IsTrue cs t = (case cs t of None \<Rightarrow> False | Some c \<Rightarrow> Status c = ConditionTrue)"

definition IsControlPlaneMachine :: "machine \<Rightarrow> bool" where
  "IsControlPlaneMachine m = (m_Labels m MachineControlPlaneLabelName \<noteq> None)"

section \<open>The world outside the reconciler\<close>

text \<open>
  The secrets held by the control-plane API, the faults its next reads will meet (the
  head is consumed by the next read; \<open>None\<close> and the empty list mean the read is
  served), and the calls made to collaborators so far, oldest first.
\<close>

type_synonym store = "object_key \<rightharpoonup> secret"

datatype object_kind = KubevirtMachineKind | KubevirtClusterKind | SecretKind

text \<open>
  The three patch helpers created in the source: in \<open>Reconcile\<close> (used by the deferred
  patch), in \<open>reconcileNormal\<close> and in \<open>reconcileDelete\<close>.
\<close>

datatype patch_helper = ReconcileHelper | NormalHelper | DeleteHelper

datatype event =
    ClientGet object_kind object_key
  | GetOwnerMachineCall
  | GetClusterFromMetadataCall
  | PatchCall patch_helper kubevirt_machine "error option"
  | CreateOrUpdateCall object_key
  | IsPersistedToSecretCall
  | FetchPersistedKeysFromSecretCall
  | NewMachineCall
  | ExistsCall
  | CreateCall
  | AddressCall
  | IsBootedCall
  | IsBootstrappedCall
  | SetProviderIDCall
  | RESTConfigFromKubeConfigCall
  | ClientNewCall

record world =
  secrets :: store
  faults :: "error option list"
  trace :: "event list"

definition record_call :: "event \<Rightarrow> world \<Rightarrow> world" where
  "record_call e w = w\<lparr>trace := trace w @ [e]\<rparr>"

text \<open>
  A \<open>MutateFn\<close> of \<open>controllerutil.CreateOrUpdate\<close>: a closure over the object and
  the client, so it takes the object and the store and returns them with its error.
\<close>

type_synonym mutate_fn = "secret \<Rightarrow> store \<Rightarrow> error option \<times> secret \<times> store"

text \<open>
  What the collaborators answer during one invocation. A Go function returning
  \<open>(*T, error)\<close> answers a pair of options, one returning only an error answers an
  \<open>error option\<close>, \<open>None\<close> being \<open>nil\<close>. The functions of cluster-api, controller-runtime
  and client-go, and the VM handle and SSH key manager of \<open>pkg/kubevirt\<close> and \<open>pkg/ssh\<close>,
  are parameters of the model.
\<close>

record env =
  get_KubevirtMachine :: "object_key \<Rightarrow> error + kubevirt_machine"
  GetOwnerMachine :: "kubevirt_machine \<Rightarrow> machine option \<times> error option"
  GetClusterFromMetadata :: "machine \<Rightarrow> cluster option \<times> error option"
  get_KubevirtCluster :: "object_key \<Rightarrow> error + kubevirt_cluster"
  NewHelper :: "patch_helper \<Rightarrow> kubevirt_machine \<Rightarrow> error option"
  Patch :: "patch_helper \<Rightarrow> kubevirt_machine \<Rightarrow> error option"
  IsPersistedToSecret :: bool
  FetchPersistedKeysFromSecret :: "error + cluster_node_ssh_keys"
  CreateOrUpdate :: "secret \<Rightarrow> mutate_fn \<Rightarrow> store \<Rightarrow> error option \<times> secret \<times> store"
  EnsureOwnerRef :: "owner_reference list \<Rightarrow> owner_reference \<Rightarrow> owner_reference list"
  NewMachine :: "error option"
  vm_Exists :: bool
  vm_Create :: "error option"
  vm_Address :: string
  vm_IsBooted :: "vm_command_executor \<Rightarrow> bool"
  vm_IsBootstrapped :: "vm_command_executor \<Rightarrow> bool"
  vm_SetProviderID :: "workload_client \<Rightarrow> string \<times> error option"
  RESTConfigFromKubeConfig :: "bytes \<Rightarrow> rest_config option \<times> error option"
  client_New :: "rest_config option \<Rightarrow> workload_client option \<times> error option"
  GetOwnerCluster :: "kubevirt_cluster \<Rightarrow> cluster option \<times> error option"
  client_List :: "string \<Rightarrow> (string \<times> string) list \<Rightarrow> error + machine list"

text \<open>
  \<open>r.Client.Get\<close> of a secret: the read is recorded, fails with the pending fault if
  there is one, with \<open>NotFound\<close> if the store has no such secret, and returns the
  secret otherwise.
\<close>

definition client_Get :: "object_key \<Rightarrow> world \<Rightarrow> (error + secret) \<times> world" where
  "client_Get key w =
     (let w1 = record_call (ClientGet SecretKind key) (w\<lparr>faults := tl (faults w)\<rparr>) in
      case faults w of
        Some err # fs \<Rightarrow> (Inl err, w1)
      | _ \<Rightarrow> (case secrets w key of None \<Rightarrow> (Inl NotFound, w1) | Some s \<Rightarrow> (Inr s, w1)))"

text \<open>
  Modelled from the spec: \<open>MachineContext.PatchKubevirtMachine\<close> is defined in
  \<open>pkg/context\<close>, which is not among the sources. The spec says of it that the Machine's
  spec and status are persisted back to the API layer and that the patch can fail. The
  call is recorded with the object it sends and its outcome; the object in memory is
  left as it is.
\<close>

definition PatchKubevirtMachine ::
  "env \<Rightarrow> patch_helper \<Rightarrow> kubevirt_machine \<Rightarrow> world \<Rightarrow> error option \<times> world" where
  "PatchKubevirtMachine env h km w =
     (Patch env h km, record_call (PatchCall h km (Patch env h km)) w)"

section \<open>The bootstrap secret and the workload cluster client\<close>

text \<open>The inner closure \<open>mutateFn\<close> of \<open>reconcileKubevirtBootstrapSecret\<close>.\<close>

definition mutateFn :: "env \<Rightarrow> machine_context \<Rightarrow> mutate_fn" where
  "mutateFn env ctx newBootstrapDataSecret st =
     (None,
      newBootstrapDataSecret\<lparr>s_OwnerReferences :=
        EnsureOwnerRef env (s_OwnerReferences newBootstrapDataSecret)
          \<lparr>or_APIVersion = km_APIVersion (ctx_KubevirtMachine ctx),
           or_Kind = km_Kind (ctx_KubevirtMachine ctx),
           or_Name = km_Name (ctx_KubevirtMachine ctx),
           or_UID = km_UID (ctx_KubevirtMachine ctx)\<rparr>\<rparr>,
      st)"

text \<open>The closure handed to the outer \<open>CreateOrUpdate\<close>, which calls the inner one.\<close>

definition outerMutateFn :: "env \<Rightarrow> machine_context \<Rightarrow> bytes \<Rightarrow> mutate_fn" where
  "outerMutateFn env ctx updatedValue newBootstrapDataSecret st =
     (case CreateOrUpdate env
             (newBootstrapDataSecret
                \<lparr>s_Type := ClusterSecretType, s_Data := [''userdata'' \<mapsto> updatedValue]\<rparr>)
             (mutateFn env ctx) st of
        (Some err, obj, st') \<Rightarrow>
          (Some (Wrapped err ''failed to set owner reference for secret''), obj, st')
      | (None, obj, st') \<Rightarrow> (None, obj, st'))"

definition reconcileKubevirtBootstrapSecret ::
  "env \<Rightarrow> machine_context \<Rightarrow> cluster_node_ssh_keys \<Rightarrow> world \<Rightarrow> error option \<times> world" where
  "reconcileKubevirtBootstrapSecret env ctx sshKeys w =
     (case Bootstrap_DataSecretName (ctx_Machine ctx) of
        None \<Rightarrow>
          (Some (ErrorsNew
             ''error retrieving bootstrap data: linked Machine's bootstrap.dataSecretName is nil''),
           w)
      | Some dataSecretName \<Rightarrow>
          (case client_Get (m_Namespace (ctx_Machine ctx), dataSecretName @ ''-userdata'') w of
             (Inr bootstrapDataSecret, w1) \<Rightarrow> (None, w1)
           | (Inl _, w1) \<Rightarrow>
               (case client_Get (m_Namespace (ctx_Machine ctx), dataSecretName) w1 of
                  (Inl err, w2) \<Rightarrow>
                    (Some (Wrapped err
                       (''failed to retrieve bootstrap data secret for KubevirtMachine '' @
                          m_Namespace (ctx_Machine ctx) @ ''/'' @ m_Name (ctx_Machine ctx))),
                     w2)
                | (Inr s, w2) \<Rightarrow>
                    (case s_Data s ''value'' of
                       None \<Rightarrow>
                         (Some (ErrorsNew
                            ''error retrieving bootstrap data: secret value key is missing''),
                          w2)
                     | Some updatedValue \<Rightarrow>
                         (let newBootstrapDataSecret =
                                empty_Secret\<lparr>s_Name := s_Name s @ ''-userdata'',
                                             s_Namespace := m_Namespace (ctx_Machine ctx)\<rparr>;
                              w3 = record_call
                                     (CreateOrUpdateCall
                                        (s_Namespace newBootstrapDataSecret,
                                         s_Name newBootstrapDataSecret)) w2
                          in case CreateOrUpdate env newBootstrapDataSecret
                                    (outerMutateFn env ctx updatedValue) (secrets w3) of
                               (Some err, obj, st) \<Rightarrow>
                                 (Some (Wrapped err
                                    ''failed to create kubevirt bootstrap secret for cluster''),
                                  w3\<lparr>secrets := st\<rparr>)
                             | (None, obj, st) \<Rightarrow> (None, w3\<lparr>secrets := st\<rparr>))))))"

definition getKubeconfigForWorkloadCluster ::
  "machine_context \<Rightarrow> world \<Rightarrow> (string \<times> error option) \<times> world" where
  "getKubeconfigForWorkloadCluster ctx w =
     (case client_Get (kc_Namespace (ctx_KubevirtCluster ctx),
                       kc_Name (ctx_KubevirtCluster ctx) @ ''-kubeconfig'') w of
        (Inl err, w1) \<Rightarrow>
          (([], Some (Wrapped err ''failed to fetch kubeconfig for workload cluster'')), w1)
      | (Inr kubeconfigSecret, w1) \<Rightarrow>
          (case s_Data kubeconfigSecret ''value'' of
             None \<Rightarrow>
               (([], Some (ErrorsNew
                   ''error retrieving kubeconfig data: secret value key is missing'')), w1)
           | Some v \<Rightarrow> ((v, None), w1)))"

definition reconcileWorkloadClusterClient ::
  "env \<Rightarrow> machine_context \<Rightarrow> world \<Rightarrow> (workload_client option \<times> error option) \<times> world" where
  "reconcileWorkloadClusterClient env ctx w =
     (case getKubeconfigForWorkloadCluster ctx w of
        ((kubeConfig, Some err), w1) \<Rightarrow>
          ((None, Some (Wrapped err ''failed to get kubeconfig for workload cluster'')), w1)
      | ((kubeConfig, None), w1) \<Rightarrow>
          (let w2 = record_call RESTConfigFromKubeConfigCall w1 in
           case RESTConfigFromKubeConfig env kubeConfig of
             (restConfig, Some err) \<Rightarrow>
               ((None, Some (Wrapped err ''failed to create REST config'')), w2)
           | (restConfig, None) \<Rightarrow>
               (let w3 = record_call ClientNewCall w2 in
                case client_New env restConfig of
                  (workloadClusterClient, Some err) \<Rightarrow>
                    ((None, Some (Wrapped err ''failed to create workload cluster client'')), w3)
                | (workloadClusterClient, None) \<Rightarrow> ((workloadClusterClient, None), w3))))"

section \<open>The machine reconciler\<close>

text \<open>
  \<open>reconcileNormal\<close> and \<open>reconcileDelete\<close> return their \<open>(ctrl.Result, error)\<close>
  pair, the KubevirtMachine as they leave it in memory (they work on the pointer held
  by the context), and the world.
\<close>

definition reconcileNormal ::
  "env \<Rightarrow> machine_context \<Rightarrow> world \<Rightarrow> (result \<times> error option) \<times> kubevirt_machine \<times> world"
  where
  "reconcileNormal env ctx w =
     (let km = ctx_KubevirtMachine ctx in
      if Spec_ProviderID km \<noteq> None then
        ((empty_result, None), MarkTrue (km\<lparr>Status_Ready := True\<rparr>) VMProvisionedCondition, w)
      else if Bootstrap_DataSecretName (ctx_Machine ctx) = None then
        (if \<not> IsControlPlaneMachine (ctx_Machine ctx) \<and>
            \<not> IsTrue (c_Conditions (ctx_Cluster ctx)) ControlPlaneInitializedCondition
         then ((empty_result, None),
               MarkFalse km VMProvisionedCondition WaitingForControlPlaneAvailableReason
                 ConditionSeverityInfo [], w)
         else ((empty_result, None),
               MarkFalse km VMProvisionedCondition WaitingForBootstrapDataReason
                 ConditionSeverityInfo [], w))
      else
        let w1 = record_call IsPersistedToSecretCall w in
        if \<not> IsPersistedToSecret env then
          ((\<lparr>Requeue = False, RequeueAfter = 10 * Second\<rparr>, None), km, w1)
        else
          let w2 = record_call FetchPersistedKeysFromSecretCall w1 in
          case FetchPersistedKeysFromSecret env of
            Inl err \<Rightarrow>
              ((empty_result, Some (Wrapped err ''failed to fetch ssh keys for cluster nodes'')),
               km, w2)
          | Inr clusterNodeSshKeys \<Rightarrow>
          (case reconcileKubevirtBootstrapSecret env ctx clusterNodeSshKeys w2 of
            (Some err, w3) \<Rightarrow>
              ((empty_result, None),
               MarkFalse km VMProvisionedCondition WaitingForBootstrapDataReason
                 ConditionSeverityInfo [], w3)
          | (None, w3) \<Rightarrow>
          (let w4 = record_call NewMachineCall w3 in
           case NewMachine env of
             Some err \<Rightarrow>
               ((empty_result,
                 Some (Wrapped err ''failed to create helper for managing the externalMachine'')),
                km, w4)
           | None \<Rightarrow>
           (case (if \<not> vm_Exists env
                  then (vm_Create env, record_call CreateCall (record_call ExistsCall w4))
                  else (None, record_call ExistsCall w4)) of
             (Some err, w5) \<Rightarrow>
               ((empty_result, Some (Wrapped err ''failed to create VM instance'')), km, w5)
           | (None, w5) \<Rightarrow>
           (let vmCommandExecutor =
                  \<lparr>ex_IPAddress = vm_Address env,
                   ex_PublicKey = PublicKey clusterNodeSshKeys,
                   ex_PrivateKey = PrivateKey clusterNodeSshKeys\<rparr>;
                w6 = record_call IsBootedCall (record_call AddressCall w5) in
            if \<not> vm_IsBooted env vmCommandExecutor then
              ((\<lparr>Requeue = False, RequeueAfter = 20 * Second\<rparr>, None), km, w6)
            else
            (case NewHelper env NormalHelper km of
              Some err \<Rightarrow> ((empty_result, Some err), km, w6)
            | None \<Rightarrow>
            (case (if \<not> Has (Status_Conditions (MarkTrue km VMProvisionedCondition))
                            BootstrapExecSucceededCondition
                   then (let km1 = MarkFalse (MarkTrue km VMProvisionedCondition)
                                     BootstrapExecSucceededCondition BootstrappingReason
                                     ConditionSeverityInfo []
                         in case PatchKubevirtMachine env NormalHelper km1 w6 of
                              (perr, w7) \<Rightarrow> (perr, km1, w7))
                   else (None, MarkTrue km VMProvisionedCondition, w6)) of
              (Some err, km2, w7) \<Rightarrow>
                ((empty_result, Some (Wrapped err ''failed to patch KubevirtMachine'')), km2, w7)
            | (None, km2, w7) \<Rightarrow>
            (case (if \<not> Spec_Bootstrapped km2 then
                     (if \<not> vm_IsBootstrapped env vmCommandExecutor
                      then Inl (MarkFalse km2 BootstrapExecSucceededCondition
                                  BootstrapFailedReason ConditionSeverityWarning
                                  ''VM not bootstrapped yet'',
                                record_call IsBootstrappedCall w7)
                      else Inr (km2\<lparr>Spec_Bootstrapped := True\<rparr>,
                                record_call IsBootstrappedCall w7))
                   else Inr (km2, w7)) of
              Inl (km3, w8) \<Rightarrow>
                ((\<lparr>Requeue = False, RequeueAfter = 10 * Second\<rparr>, None), km3, w8)
            | Inr (km3, w8) \<Rightarrow>
            (let km4 = (MarkTrue km3 BootstrapExecSucceededCondition)
                         \<lparr>Status_Addresses :=
                            [(MachineHostName, km_Name km3),
                             (MachineInternalIP, vm_Address env),
                             (MachineExternalIP, vm_Address env)]\<rparr>;
                 w9 = record_call AddressCall (record_call AddressCall w8)
             in case reconcileWorkloadClusterClient env ctx w9 of
                  ((None, err), w10) \<Rightarrow>
                    ((\<lparr>Requeue = False, RequeueAfter = 10 * Second\<rparr>, None), km4, w10)
                | ((Some workloadClusterClient, err), w10) \<Rightarrow>
                    (case vm_SetProviderID env workloadClusterClient of
                       (providerID, Some err') \<Rightarrow>
                         ((\<lparr>Requeue = False, RequeueAfter = 5 * Second\<rparr>, None), km4,
                          record_call SetProviderIDCall w10)
                     | (providerID, None) \<Rightarrow>
                         ((empty_result, None),
                          MarkTrue (km4\<lparr>Spec_ProviderID := Some providerID,
                                        Status_Ready := True\<rparr>) VMProvisionedCondition,
                          record_call SetProviderIDCall w10)))))))))))"

definition reconcileDelete ::
  "env \<Rightarrow> machine_context \<Rightarrow> world \<Rightarrow> (result \<times> error option) \<times> kubevirt_machine \<times> world"
  where
  "reconcileDelete env ctx w =
     (let km = ctx_KubevirtMachine ctx in
      case NewHelper env DeleteHelper km of
        Some err \<Rightarrow> ((empty_result, Some err), km, w)
      | None \<Rightarrow>
          (let km1 = MarkFalse km VMProvisionedCondition DeletingReason ConditionSeverityInfo []
           in case PatchKubevirtMachine env DeleteHelper km1 w of
                (Some err, w1) \<Rightarrow>
                  ((empty_result, Some (Wrapped err ''failed to patch KubevirtMachine'')),
                   km1, w1)
              | (None, w1) \<Rightarrow>
                  ((empty_result, None), RemoveFinalizer km1 MachineFinalizer, w1)))"

text \<open>
  \<open>Reconcile\<close> in three parts, as its \<open>defer\<close> divides it. \<open>Reconcile_entry\<close> is
  the code before the \<open>defer\<close> statement: it ends the invocation (\<open>Inl\<close>) or hands
  the machine context on (\<open>Inr\<close>). \<open>Reconcile_body\<close> is the code after it.
  \<open>Reconcile_deferred\<close> is the deferred closure, run when the body returns: it patches
  the KubevirtMachine and sets the named result \<open>rerr\<close> if that is still \<open>nil\<close>.
\<close>

definition Reconcile_entry ::
  "env \<Rightarrow> object_key \<Rightarrow> world \<Rightarrow>
     (outcome \<times> kubevirt_machine \<times> world) + (machine_context \<times> world)" where
  "Reconcile_entry env req w =
     (let w1 = record_call (ClientGet KubevirtMachineKind req) w in
      case get_KubevirtMachine env req of
        Inl err \<Rightarrow>
          (if IsNotFound err then Inl (Returned empty_result None, empty_KubevirtMachine, w1)
           else Inl (Returned empty_result (Some err), empty_KubevirtMachine, w1))
      | Inr kubevirtMachine \<Rightarrow>
      (let w2 = record_call GetOwnerMachineCall w1 in
       case GetOwnerMachine env kubevirtMachine of
         (m, Some err) \<Rightarrow> Inl (Returned empty_result (Some err), kubevirtMachine, w2)
       | (None, None) \<Rightarrow> Inl (Returned empty_result None, kubevirtMachine, w2)
       | (Some machine, None) \<Rightarrow>
       (let w3 = record_call GetClusterFromMetadataCall w2 in
        case GetClusterFromMetadata env machine of
          (c, Some err) \<Rightarrow> Inl (Returned empty_result (Some err), kubevirtMachine, w3)
        | (None, None) \<Rightarrow> Inl (Returned empty_result None, kubevirtMachine, w3)
        | (Some cluster, None) \<Rightarrow>
        (case c_InfrastructureRef cluster of
           None \<Rightarrow> Inl (Panicked NilPointerDereference, kubevirtMachine, w3)
         | Some infrastructureRefName \<Rightarrow>
         (let kubevirtClusterName = (km_Namespace kubevirtMachine, infrastructureRefName);
              w4 = record_call (ClientGet KubevirtClusterKind kubevirtClusterName) w3 in
          case get_KubevirtCluster env kubevirtClusterName of
            Inl err \<Rightarrow> Inl (Returned empty_result None, kubevirtMachine, w4)
          | Inr kubevirtCluster \<Rightarrow>
              (case NewHelper env ReconcileHelper kubevirtMachine of
                 Some err \<Rightarrow> Inl (Returned empty_result (Some err), kubevirtMachine, w4)
               | None \<Rightarrow>
                   Inr (\<lparr>ctx_Cluster = cluster, ctx_KubevirtCluster = kubevirtCluster,
                         ctx_Machine = machine, ctx_KubevirtMachine = kubevirtMachine\<rparr>,
                        w4)))))))"

definition Reconcile_body ::
  "env \<Rightarrow> machine_context \<Rightarrow> world \<Rightarrow> (result \<times> error option) \<times> kubevirt_machine \<times> world"
  where
  "Reconcile_body env machineContext w =
     (let kubevirtMachine = ctx_KubevirtMachine machineContext in
      if \<not> ContainsFinalizer kubevirtMachine MachineFinalizer then
        ((empty_result, None), AddFinalizer kubevirtMachine MachineFinalizer, w)
      else if \<not> c_InfrastructureReady (ctx_Cluster machineContext) then
        ((empty_result, None),
         MarkFalse kubevirtMachine VMProvisionedCondition WaitingForClusterInfrastructureReason
           ConditionSeverityInfo [], w)
      else if \<not> IsZero (km_DeletionTimestamp kubevirtMachine) then
        reconcileDelete env machineContext w
      else reconcileNormal env machineContext w)"

definition Reconcile_deferred ::
  "env \<Rightarrow> (result \<times> error option) \<times> kubevirt_machine \<times> world \<Rightarrow>
     outcome \<times> kubevirt_machine \<times> world" where
  "Reconcile_deferred env r =
     (case r of
        ((res, rerr), kubevirtMachine, w) \<Rightarrow>
          (case PatchKubevirtMachine env ReconcileHelper kubevirtMachine w of
             (Some err, w1) \<Rightarrow>
               (Returned res (if rerr = None then Some err else rerr), kubevirtMachine, w1)
           | (None, w1) \<Rightarrow> (Returned res rerr, kubevirtMachine, w1)))"

definition Reconcile ::
  "env \<Rightarrow> object_key \<Rightarrow> world \<Rightarrow> outcome \<times> kubevirt_machine \<times> world" where
  "Reconcile env req w =
     (case Reconcile_entry env req w of
        Inl r \<Rightarrow> r
      | Inr (machineContext, w1) \<Rightarrow>
          Reconcile_deferred env (Reconcile_body env machineContext w1))"

section \<open>The cluster-to-machines index\<close>

text \<open>
  The \<open>client.Object\<close> values the handler can be given. An interface value is nil
  (\<open>NilObject\<close>) or holds a pointer of one of these kinds, and that pointer may itself
  be nil: \<open>None\<close> is the typed nil pointer, \<open>Some x\<close> a pointer to the object \<open>x\<close>.
\<close>

datatype client_object =
    NilObject
  | KubevirtClusterObject "kubevirt_cluster option"
  | KubevirtMachineObject "kubevirt_machine option"
  | MachineObject "machine option"
  | ClusterObject "cluster option"
  | SecretObject "secret option"

text \<open>What \<open>%T\<close> prints for the object.\<close>

fun type_name :: "client_object \<Rightarrow> string" where
  "type_name NilObject = ''<nil>''"
| "type_name (KubevirtClusterObject c) = ''*v1alpha4.KubevirtCluster''"
| "type_name (KubevirtMachineObject m) = ''*v1alpha4.KubevirtMachine''"
| "type_name (MachineObject m) = ''*v1alpha4.Machine''"
| "type_name (ClusterObject c) = ''*v1alpha4.Cluster''"
| "type_name (SecretObject s) = ''*v1.Secret''"

text \<open>The loop over \<open>machineList.Items\<close>, appending to \<open>result\<close>.\<close>

fun collect_requests :: "machine list \<Rightarrow> object_key list \<Rightarrow> object_key list" where
  "collect_requests [] result = result"
| "collect_requests (m # ms) result =
     (if m_InfrastructureRef_Name m = [] then collect_requests ms result
      else collect_requests ms (result @ [(m_Namespace m, m_Name m)]))"

text \<open>
  The type assertion succeeds for every pointer of type \<open>*KubevirtCluster\<close>, the nil
  pointer included; reading \<open>c.ObjectMeta\<close> for \<open>GetOwnerCluster\<close> then dereferences
  it, which panics when it is nil.
\<close>

definition KubevirtClusterToKubevirtMachines ::
  "env \<Rightarrow> client_object \<Rightarrow> panic + object_key list" where
  "KubevirtClusterToKubevirtMachines env obj =
     (case obj of
        KubevirtClusterObject None \<Rightarrow> Inl NilPointerDereference
      | KubevirtClusterObject (Some c) \<Rightarrow>
          (case GetOwnerCluster env c of
             (cluster, err) \<Rightarrow>
               if (case err of None \<Rightarrow> False | Some e \<Rightarrow> IsNotFound e) \<or> cluster = None
               then Inr []
               else if err \<noteq> None then Inr []
               else (case cluster of
                       None \<Rightarrow> Inl NilPointerDereference
                     | Some cl \<Rightarrow>
                         (case client_List env (kc_Namespace c) [(ClusterLabelName, c_Name cl)] of
                            Inl e \<Rightarrow> Inr []
                          | Inr items \<Rightarrow> Inr (collect_requests items []))))
      | _ \<Rightarrow> Inl (PanicString (''Expected a KubevirtCluster but got a '' @ type_name obj)))"

section \<open>Auxiliary notions for the properties\<close>

text \<open>The calls that patch through the helper of \<open>Reconcile\<close>: the deferred status patch.\<close>

fun is_deferred_patch :: "event \<Rightarrow> bool" where
  "is_deferred_patch (PatchCall h km e) = (h = ReconcileHelper)"
| "is_deferred_patch _ = False"

definition deferred_patches :: "world \<Rightarrow> event list" where
  "deferred_patches w = filter is_deferred_patch (trace w)"

text \<open>Every patch call recorded so far sends an object whose \<open>Bootstrapped\<close> flag is set.\<close>

fun patch_bootstrapped :: "event \<Rightarrow> bool" where
  "patch_bootstrapped (PatchCall h km e) = Spec_Bootstrapped km"
| "patch_bootstrapped _ = True"

definition patches_bootstrapped :: "world \<Rightarrow> bool" where
  "patches_bootstrapped w = list_all patch_bootstrapped (trace w)"

text \<open>The object that \<open>reconcileDelete\<close> patches: the machine marked as being deleted.\<close>

definition marked_deleting :: "kubevirt_machine \<Rightarrow> kubevirt_machine" where
  "marked_deleting km =
     MarkFalse km VMProvisionedCondition DeletingReason ConditionSeverityInfo []"

text \<open>The four reads of the entry sequence of \<open>Reconcile\<close>.\<close>

definition entry_reads :: "object_key \<Rightarrow> object_key \<Rightarrow> event list" where
  "entry_reads req kubevirtClusterName =
     [ClientGet KubevirtMachineKind req, GetOwnerMachineCall, GetClusterFromMetadataCall,
      ClientGet KubevirtClusterKind kubevirtClusterName]"


section \<open>Example inputs\<close>

definition req_example :: object_key where
  "req_example = (''ns'', ''km'')"

definition km_example :: kubevirt_machine where
  "km_example =
     empty_KubevirtMachine
       \<lparr>km_APIVersion := ''infrastructure.cluster.x-k8s.io/v1alpha4'',
        km_Kind := ''KubevirtMachine'', km_Name := ''km'', km_Namespace := ''ns'',
        km_UID := ''uid-1'', km_Finalizers := [MachineFinalizer]\<rparr>"

definition km_nofinalizer :: kubevirt_machine where
  "km_nofinalizer = km_example\<lparr>km_Finalizers := []\<rparr>"

definition km_provisioned :: kubevirt_machine where
  "km_provisioned = km_example\<lparr>Spec_ProviderID := Some ''kubevirt://km''\<rparr>"

definition km_bootstrapped :: kubevirt_machine where
  "km_bootstrapped = km_example\<lparr>Spec_Bootstrapped := True\<rparr>"

definition km_deleted :: kubevirt_machine where
  "km_deleted = km_example\<lparr>km_DeletionTimestamp := Some 1700000000\<rparr>"

definition machine_example :: machine where
  "machine_example =
     \<lparr>m_Name = ''m'', m_Namespace = ''ns'', m_Labels = Map.empty,
      Bootstrap_DataSecretName = Some ''boot'', m_InfrastructureRef_Name = ''km''\<rparr>"

definition machine_nodata :: machine where
  "machine_nodata = machine_example\<lparr>Bootstrap_DataSecretName := None\<rparr>"

definition cluster_example :: cluster where
  "cluster_example =
     \<lparr>c_Name = ''c'', c_InfrastructureRef = Some ''kc'', c_InfrastructureReady = True,
      c_Conditions = Map.empty\<rparr>"

definition kc_example :: kubevirt_cluster where
  "kc_example = \<lparr>kc_Name = ''kc'', kc_Namespace = ''ns''\<rparr>"

definition keys_example :: cluster_node_ssh_keys where
  "keys_example = \<lparr>PublicKey = ''pub'', PrivateKey = ''priv''\<rparr>"

definition ctx_example :: machine_context where
  "ctx_example =
     \<lparr>ctx_Cluster = cluster_example, ctx_KubevirtCluster = kc_example,
      ctx_Machine = machine_example, ctx_KubevirtMachine = km_example\<rparr>"

definition ctx_nofinalizer :: machine_context where
  "ctx_nofinalizer = ctx_example\<lparr>ctx_KubevirtMachine := km_nofinalizer\<rparr>"

definition ctx_provisioned :: machine_context where
  "ctx_provisioned = ctx_example\<lparr>ctx_KubevirtMachine := km_provisioned\<rparr>"

definition ctx_nodata :: machine_context where
  "ctx_nodata = ctx_example\<lparr>ctx_Machine := machine_nodata\<rparr>"

definition ctx_provisioned_nodata :: machine_context where
  "ctx_provisioned_nodata = ctx_provisioned\<lparr>ctx_Machine := machine_nodata\<rparr>"

definition ctx_bootstrapped :: machine_context where
  "ctx_bootstrapped = ctx_example\<lparr>ctx_KubevirtMachine := km_bootstrapped\<rparr>"

definition ctx_deleted :: machine_context where
  "ctx_deleted = ctx_example\<lparr>ctx_KubevirtMachine := km_deleted\<rparr>"

definition world0 :: world where
  "world0 = \<lparr>secrets = Map.empty, faults = [], trace = []\<rparr>"

definition world_entry :: world where
  "world_entry = world0\<lparr>trace := entry_reads req_example (''ns'', ''kc'')\<rparr>"





text \<open>
  An environment in which every collaborator succeeds. Its \<open>CreateOrUpdate\<close> runs the
  mutate function and stores the object it returns.
\<close>

definition env_ok :: env where
  "env_ok =
     \<lparr>get_KubevirtMachine = (\<lambda>key. Inr km_example),
      GetOwnerMachine = (\<lambda>km. (Some machine_example, None)),
      GetClusterFromMetadata = (\<lambda>m. (Some cluster_example, None)),
      get_KubevirtCluster = (\<lambda>key. Inr kc_example),
      NewHelper = (\<lambda>h km. None),
      Patch = (\<lambda>h km. None),
      IsPersistedToSecret = True,
      FetchPersistedKeysFromSecret = Inr keys_example,
      CreateOrUpdate =
        (\<lambda>obj f st. case f obj st of
                       (Some err, obj', st') \<Rightarrow> (Some err, obj', st')
                     | (None, obj', st') \<Rightarrow>
                         (None, obj', st'((s_Namespace obj', s_Name obj') \<mapsto> obj'))),
      EnsureOwnerRef = (\<lambda>refs r. refs @ [r]),
      NewMachine = None,
      vm_Exists = False,
      vm_Create = None,
      vm_Address = ''10.0.0.5'',
      vm_IsBooted = (\<lambda>ex. True),
      vm_IsBootstrapped = (\<lambda>ex. True),
      vm_SetProviderID = (\<lambda>c. (''kubevirt://km'', None)),
      RESTConfigFromKubeConfig = (\<lambda>b. (Some (RestConfig b), None)),
      client_New =
        (\<lambda>rc. case rc of
                 None \<Rightarrow> (None, Some (OtherError ''must provide non-nil rest.Config''))
               | Some c \<Rightarrow> (Some (WorkloadClient c), None)),
      GetOwnerCluster = (\<lambda>kc. (Some cluster_example, None)),
      client_List = (\<lambda>ns labels. Inr [machine_example])\<rparr>"

definition env_nofinalizer :: env where
  "env_nofinalizer = env_ok\<lparr>get_KubevirtMachine := (\<lambda>key. Inr km_nofinalizer)\<rparr>"

definition env_patch_fails :: env where
  "env_patch_fails = env_nofinalizer\<lparr>Patch := (\<lambda>h km. Some (OtherError ''conflict''))\<rparr>"

definition env_no_owner :: env where
  "env_no_owner = env_nofinalizer\<lparr>GetOwnerMachine := (\<lambda>km. (None, None))\<rparr>"

definition env_keys_missing :: env where
  "env_keys_missing = env_ok\<lparr>IsPersistedToSecret := False\<rparr>"

definition env_provisioned :: env where
  "env_provisioned = env_ok\<lparr>get_KubevirtMachine := (\<lambda>key. Inr km_provisioned)\<rparr>"

definition env_bootstrapped :: env where
  "env_bootstrapped = env_ok\<lparr>get_KubevirtMachine := (\<lambda>key. Inr km_bootstrapped)\<rparr>"

definition env_delete_patch_fails :: env where
  "env_delete_patch_fails =
     env_ok\<lparr>Patch := (\<lambda>h km. if h = DeleteHelper then Some (OtherError ''conflict'') else None)\<rparr>"

definition env_deleted_conflict :: env where
  "env_deleted_conflict =
     env_ok\<lparr>get_KubevirtMachine := (\<lambda>key. Inr km_deleted),
            Patch := (\<lambda>h km. Some (OtherError ''conflict''))\<rparr>"


definition env_infra_unreachable :: env where
  "env_infra_unreachable =
     env_ok\<lparr>get_KubevirtCluster := (\<lambda>key. Inl (OtherError ''connection refused''))\<rparr>"

section \<open>Unfolding the primitives\<close>

lemmas primitive_defs =
  record_call_def ContainsFinalizer_def AddFinalizer_def RemoveFinalizer_def MarkTrue_def
  MarkFalse_def TrueCondition_def FalseCondition_def Has_def IsTrue_def IsZero_def
  IsControlPlaneMachine_def PatchKubevirtMachine_def empty_result_def Second_def

section \<open>The normal path: waiting for bootstrap data and for the SSH keys\<close>

text \<open>
  C4, as stated, is false: a machine whose \<open>providerID\<close> is already set leaves the normal
  path at its first guard, whatever the bootstrap-data reference of its Machine, with
  \<open>VMProvisioned=True\<close>.
\<close>

theorem C4_counterexample:
  "Bootstrap_DataSecretName (ctx_Machine ctx_provisioned_nodata) = None \<and>
   \<not> IsControlPlaneMachine (ctx_Machine ctx_provisioned_nodata) \<and>
   \<not> IsTrue (c_Conditions (ctx_Cluster ctx_provisioned_nodata)) ControlPlaneInitializedCondition \<and>
   Status_Conditions (fst (snd (reconcileNormal env_ok ctx_provisioned_nodata world0)))
     VMProvisionedCondition = Some TrueCondition \<and>
   Status TrueCondition = ConditionTrue"
  by (simp add: reconcileNormal_def km_example_def km_provisioned_def machine_example_def
      machine_nodata_def cluster_example_def kc_example_def keys_example_def ctx_example_def
      ctx_provisioned_def ctx_provisioned_nodata_def world0_def env_ok_def
      empty_KubevirtMachine_def primitive_defs)

text \<open>
  C4, amended: on the normal path, for every machine whose \<open>providerID\<close> is not yet set
  and whose logical Machine has no bootstrap-data secret reference: if the machine is not a
  control-plane machine and the cluster's \<open>ControlPlaneInitialized\<close> condition is not
  true, the reconciler sets \<open>VMProvisioned=False\<close> with reason
  \<open>WaitingForControlPlaneAvailable\<close>; otherwise it sets \<open>VMProvisioned=False\<close> with
  reason \<open>WaitingForBootstrapData\<close>. In both cases it returns an empty result with nil
  error, changes nothing else of the machine and calls no collaborator.
\<close>

theorem C4_waiting_for_bootstrap_data:
  assumes "Spec_ProviderID (ctx_KubevirtMachine ctx) = None"
    and "Bootstrap_DataSecretName (ctx_Machine ctx) = None"
  shows "reconcileNormal env ctx w =
     ((empty_result, None),
      MarkFalse (ctx_KubevirtMachine ctx) VMProvisionedCondition
        (if \<not> IsControlPlaneMachine (ctx_Machine ctx) \<and>
            \<not> IsTrue (c_Conditions (ctx_Cluster ctx)) ControlPlaneInitializedCondition
         then WaitingForControlPlaneAvailableReason else WaitingForBootstrapDataReason)
        ConditionSeverityInfo [],
      w)"
  using assms by (simp add: reconcileNormal_def)

theorem C4_waiting_for_bootstrap_data_witness:
  "Spec_ProviderID (ctx_KubevirtMachine ctx_nodata) = None \<and>
   Bootstrap_DataSecretName (ctx_Machine ctx_nodata) = None \<and>
   fst (reconcileNormal env_ok ctx_nodata world0) = (\<lparr>Requeue = False, RequeueAfter = 0\<rparr>, None) \<and>
   Status_Conditions (fst (snd (reconcileNormal env_ok ctx_nodata world0))) VMProvisionedCondition =
     Some \<lparr>Status = ConditionFalse, Severity = ConditionSeverityInfo,
           Reason = WaitingForControlPlaneAvailableReason, Message = []\<rparr> \<and>
   snd (snd (reconcileNormal env_ok ctx_nodata world0)) = world0"
proof -
  have p: "Spec_ProviderID (ctx_KubevirtMachine ctx_nodata) = None"
    by (simp add: km_example_def machine_example_def machine_nodata_def cluster_example_def
        kc_example_def keys_example_def ctx_example_def ctx_nodata_def world0_def env_ok_def
        empty_KubevirtMachine_def)
  have d: "Bootstrap_DataSecretName (ctx_Machine ctx_nodata) = None"
    by (simp add: km_example_def machine_example_def machine_nodata_def cluster_example_def
        kc_example_def keys_example_def ctx_example_def ctx_nodata_def world0_def env_ok_def
        empty_KubevirtMachine_def)
  show ?thesis
    using p d C4_waiting_for_bootstrap_data [OF p d, of env_ok world0]
    by (simp add: km_example_def machine_example_def machine_nodata_def cluster_example_def
        kc_example_def keys_example_def ctx_example_def ctx_nodata_def world0_def env_ok_def
        empty_KubevirtMachine_def primitive_defs)
qed

text \<open>
  C5, as stated, is false: with the SSH keys not yet persisted, a machine whose Machine has
  no bootstrap-data reference is not requeued and has its \<open>VMProvisioned\<close> condition
  changed, and a machine whose \<open>providerID\<close> is set is not requeued either. Both leave
  the normal path at an earlier guard.
\<close>

theorem C5_counterexample:
  "\<not> IsPersistedToSecret env_keys_missing \<and>
   RequeueAfter (fst (fst (reconcileNormal env_keys_missing ctx_nodata world0))) = 0 \<and>
   Status_Conditions (fst (snd (reconcileNormal env_keys_missing ctx_nodata world0)))
     VMProvisionedCondition \<noteq>
   Status_Conditions (ctx_KubevirtMachine ctx_nodata) VMProvisionedCondition \<and>
   RequeueAfter (fst (fst (reconcileNormal env_keys_missing ctx_provisioned world0))) = 0"
  by (simp add: reconcileNormal_def km_example_def km_provisioned_def machine_example_def
      machine_nodata_def cluster_example_def kc_example_def keys_example_def ctx_example_def
      ctx_provisioned_def ctx_nodata_def world0_def env_ok_def env_keys_missing_def
      empty_KubevirtMachine_def primitive_defs)

text \<open>
  C5, amended: on the normal path, when the machine's \<open>providerID\<close> is not yet set, its
  logical Machine has a bootstrap-data secret reference and the cluster's SSH key pair is
  not yet persisted to its secret, the reconciler returns a requeue after exactly 10
  seconds with nil error, leaves the machine (so every condition) as it is, and its only
  call to a collaborator is the check of the keys: it does not attempt VM creation.
\<close>

theorem C5_requeue_until_keys_persisted:
  assumes "Spec_ProviderID (ctx_KubevirtMachine ctx) = None"
    and "Bootstrap_DataSecretName (ctx_Machine ctx) \<noteq> None"
    and "\<not> IsPersistedToSecret env"
  shows "reconcileNormal env ctx w =
     ((\<lparr>Requeue = False, RequeueAfter = 10 * Second\<rparr>, None), ctx_KubevirtMachine ctx,
      w\<lparr>trace := trace w @ [IsPersistedToSecretCall]\<rparr>) \<and>
     filter (\<lambda>e. e = CreateCall) (trace (snd (snd (reconcileNormal env ctx w)))) =
       filter (\<lambda>e. e = CreateCall) (trace w)"
  using assms by (auto simp add: reconcileNormal_def Let_def record_call_def)

theorem C5_requeue_until_keys_persisted_witness:
  "Spec_ProviderID (ctx_KubevirtMachine ctx_example) = None \<and>
   Bootstrap_DataSecretName (ctx_Machine ctx_example) \<noteq> None \<and>
   \<not> IsPersistedToSecret env_keys_missing \<and>
   reconcileNormal env_keys_missing ctx_example world0 =
     ((\<lparr>Requeue = False, RequeueAfter = 10000000000\<rparr>, None), km_example,
      world0\<lparr>trace := [IsPersistedToSecretCall]\<rparr>)"
proof -
  have p: "Spec_ProviderID (ctx_KubevirtMachine ctx_example) = None"
    by (simp add: km_example_def machine_example_def cluster_example_def kc_example_def
        keys_example_def ctx_example_def world0_def env_ok_def env_keys_missing_def
        empty_KubevirtMachine_def)
  have d: "Bootstrap_DataSecretName (ctx_Machine ctx_example) \<noteq> None"
    by (simp add: km_example_def machine_example_def cluster_example_def kc_example_def
        keys_example_def ctx_example_def world0_def env_ok_def env_keys_missing_def
        empty_KubevirtMachine_def)
  have k: "\<not> IsPersistedToSecret env_keys_missing"
    by (simp add: km_example_def machine_example_def cluster_example_def kc_example_def
        keys_example_def ctx_example_def world0_def env_ok_def env_keys_missing_def
        empty_KubevirtMachine_def)
  have t: "trace world0 = []" and c: "ctx_KubevirtMachine ctx_example = km_example"
    by (simp_all add: km_example_def machine_example_def cluster_example_def kc_example_def
        keys_example_def ctx_example_def world0_def env_ok_def env_keys_missing_def
        empty_KubevirtMachine_def)
  show ?thesis
    using p d k C5_requeue_until_keys_persisted [OF p d k, of world0]
    by (simp add: t c Second_def)
qed

section \<open>Panics of the cluster-to-machines index\<close>

text \<open>
  C9, as stated, is false: a nil pointer of type \<open>*KubevirtCluster\<close> is a
  KubevirtCluster argument, it passes the type assertion, and the handler panics when it
  dereferences it.
\<close>

theorem C9_counterexample:
  "KubevirtClusterToKubevirtMachines env_ok (KubevirtClusterObject None) =
     Inl NilPointerDereference"
  by (simp add: KubevirtClusterToKubevirtMachines_def)

text \<open>
  C9, amended: \<open>KubevirtClusterToKubevirtMachines\<close> panics with its message when its
  object argument is not a KubevirtCluster; for every non-nil KubevirtCluster argument it
  returns a list of requests (possibly empty) and does not panic, whatever
  \<open>GetOwnerCluster\<close> and \<open>List\<close> answer; for the nil \<open>*KubevirtCluster\<close> pointer it
  panics on the dereference.
\<close>

theorem C9_panics_only_on_other_kinds:
  "(\<exists>requests.
      KubevirtClusterToKubevirtMachines env (KubevirtClusterObject (Some kc)) = Inr requests) \<and>
   KubevirtClusterToKubevirtMachines env (KubevirtClusterObject None) =
     Inl NilPointerDereference \<and>
   ((\<forall>c. obj \<noteq> KubevirtClusterObject c) \<longrightarrow>
      KubevirtClusterToKubevirtMachines env obj =
        Inl (PanicString (''Expected a KubevirtCluster but got a '' @ type_name obj)))"
  by (cases obj)
     (auto simp: KubevirtClusterToKubevirtMachines_def
           split: prod.splits option.splits sum.splits)

theorem C9_panics_only_on_other_kinds_witness:
  "(\<forall>c. MachineObject (Some machine_example) \<noteq> KubevirtClusterObject c) \<and>
   KubevirtClusterToKubevirtMachines env_ok (MachineObject (Some machine_example)) =
     Inl (PanicString ''Expected a KubevirtCluster but got a *v1alpha4.Machine'') \<and>
   (\<forall>c. NilObject \<noteq> KubevirtClusterObject c) \<and>
   KubevirtClusterToKubevirtMachines env_ok NilObject =
     Inl (PanicString ''Expected a KubevirtCluster but got a <nil>'') \<and>
   KubevirtClusterToKubevirtMachines env_ok (KubevirtClusterObject (Some kc_example)) =
     Inr [(''ns'', ''m'')]"
proof -
  have k: "\<forall>c. MachineObject (Some machine_example) \<noteq> KubevirtClusterObject c"
    and n: "\<forall>c. NilObject \<noteq> KubevirtClusterObject c"
    by simp_all
  have r: "KubevirtClusterToKubevirtMachines env_ok (KubevirtClusterObject (Some kc_example)) =
     Inr [(''ns'', ''m'')]"
    by (simp add: KubevirtClusterToKubevirtMachines_def km_example_def machine_example_def
        cluster_example_def kc_example_def keys_example_def env_ok_def
        empty_KubevirtMachine_def)
  note other =
    C9_panics_only_on_other_kinds
      [of env_ok kc_example "MachineObject (Some machine_example)",
       THEN conjunct2, THEN conjunct2, THEN mp, OF k]
  note nil_interface =
    C9_panics_only_on_other_kinds
      [of env_ok kc_example NilObject, THEN conjunct2, THEN conjunct2, THEN mp, OF n]
  show ?thesis
    using k n r other nil_interface by simp
qed

section \<open>The entry sequence\<close>

text \<open>
  C10: in the entry sequence, every error of the fetch of the KubevirtCluster, not only
  \<open>NotFound\<close>, makes \<open>Reconcile\<close> return an empty result with nil error; the error is
  not propagated, nothing is patched, and the four reads of the entry sequence are the
  only calls made.
\<close>

theorem C10_infra_fetch_error_is_swallowed:
  assumes "get_KubevirtMachine env req = Inr km"
    and "GetOwnerMachine env km = (Some m, None)"
    and "GetClusterFromMetadata env m = (Some c, None)"
    and "c_InfrastructureRef c = Some n"
    and "get_KubevirtCluster env (km_Namespace km, n) = Inl err"
  shows "Reconcile env req w =
     (Returned empty_result None, km,
      w\<lparr>trace := trace w @ entry_reads req (km_Namespace km, n)\<rparr>)"
  using assms
  by (simp add: Reconcile_def Reconcile_entry_def record_call_def entry_reads_def)

theorem C10_infra_fetch_error_is_swallowed_witness:
  "get_KubevirtMachine env_infra_unreachable req_example = Inr km_example \<and>
   GetOwnerMachine env_infra_unreachable km_example = (Some machine_example, None) \<and>
   GetClusterFromMetadata env_infra_unreachable machine_example = (Some cluster_example, None) \<and>
   c_InfrastructureRef cluster_example = Some ''kc'' \<and>
   get_KubevirtCluster env_infra_unreachable (km_Namespace km_example, ''kc'') =
     Inl (OtherError ''connection refused'') \<and>
   \<not> IsNotFound (OtherError ''connection refused'') \<and>
   fst (Reconcile env_infra_unreachable req_example world0) =
     Returned \<lparr>Requeue = False, RequeueAfter = 0\<rparr> None"
proof -
  have a: "get_KubevirtMachine env_infra_unreachable req_example = Inr km_example"
    and b: "GetOwnerMachine env_infra_unreachable km_example = (Some machine_example, None)"
    and c: "GetClusterFromMetadata env_infra_unreachable machine_example =
              (Some cluster_example, None)"
    and d: "c_InfrastructureRef cluster_example = Some ''kc''"
    and e: "get_KubevirtCluster env_infra_unreachable (km_Namespace km_example, ''kc'') =
              Inl (OtherError ''connection refused'')"
    by (simp_all add: env_infra_unreachable_def env_ok_def cluster_example_def)
  show ?thesis
    using a b c d e C10_infra_fetch_error_is_swallowed [OF a b c d e, of world0]
    by (simp add: empty_result_def)
qed


section \<open>What the parts of the reconciler leave unchanged\<close>

lemma deferred_patches_record_call:
  "\<not> is_deferred_patch e \<Longrightarrow> deferred_patches (record_call e w) =
      deferred_patches w"
  by (simp add: deferred_patches_def record_call_def)

lemma deferred_patches_secrets_update:
  "deferred_patches (w\<lparr>secrets := st\<rparr>) = deferred_patches w"
  by (simp add: deferred_patches_def)

lemma deferred_patches_client_Get:
  "client_Get key w = (r, w') \<Longrightarrow> deferred_patches w' = deferred_patches w"
  by (auto simp: client_Get_def deferred_patches_def record_call_def Let_def
           split: list.splits option.splits)

lemma deferred_patches_PatchKubevirtMachine:
  "PatchKubevirtMachine env h km w = (r, w') \<Longrightarrow> h \<noteq> ReconcileHelper \<Longrightarrow>
     deferred_patches w' = deferred_patches w"
  by (auto simp: PatchKubevirtMachine_def deferred_patches_def record_call_def)

lemma deferred_patches_reconcileKubevirtBootstrapSecret:
  "reconcileKubevirtBootstrapSecret env ctx keys w = (r, w') \<Longrightarrow>
     deferred_patches w' = deferred_patches w"
  by (auto simp: reconcileKubevirtBootstrapSecret_def Let_def deferred_patches_record_call
                 deferred_patches_secrets_update
           split: option.splits prod.splits sum.splits
           dest!: deferred_patches_client_Get)

lemma deferred_patches_getKubeconfigForWorkloadCluster:
  "getKubeconfigForWorkloadCluster ctx w = (r, w') \<Longrightarrow>
     deferred_patches w' = deferred_patches w"
  by (auto simp: getKubeconfigForWorkloadCluster_def
           split: option.splits prod.splits sum.splits
           dest!: deferred_patches_client_Get)

lemma deferred_patches_reconcileWorkloadClusterClient:
  "reconcileWorkloadClusterClient env ctx w = (r, w') \<Longrightarrow>
     deferred_patches w' = deferred_patches w"
  by (auto simp: reconcileWorkloadClusterClient_def Let_def deferred_patches_record_call
           split: option.splits prod.splits sum.splits
           dest!: deferred_patches_getKubeconfigForWorkloadCluster)

lemma deferred_patches_reconcileNormal:
  "reconcileNormal env ctx w = (r, km', w') \<Longrightarrow> deferred_patches w' = deferred_patches w"
  by (auto simp: reconcileNormal_def Let_def deferred_patches_record_call
           split: option.splits prod.splits sum.splits if_splits
           dest!: deferred_patches_reconcileWorkloadClusterClient
                  deferred_patches_reconcileKubevirtBootstrapSecret
                  deferred_patches_PatchKubevirtMachine)

lemma deferred_patches_reconcileDelete:
  "reconcileDelete env ctx w = (r, km', w') \<Longrightarrow> deferred_patches w' = deferred_patches w"
  by (auto simp: reconcileDelete_def Let_def
           split: option.splits prod.splits
           dest!: deferred_patches_PatchKubevirtMachine)

lemma deferred_patches_Reconcile_body:
  "Reconcile_body env ctx w = (r, km', w') \<Longrightarrow> deferred_patches w' = deferred_patches w"
  by (auto simp: Reconcile_body_def Let_def
           split: if_splits
           dest: deferred_patches_reconcileNormal deferred_patches_reconcileDelete)

text \<open>
  When the entry sequence hands on a machine context, it has made its four reads and
  nothing else, and the context holds the objects that were fetched.
\<close>

lemma Reconcile_entry_Inr:
  assumes "Reconcile_entry env req w = Inr (ctx, w1)"
  shows "get_KubevirtMachine env req = Inr (ctx_KubevirtMachine ctx) \<and>
     GetOwnerMachine env (ctx_KubevirtMachine ctx) = (Some (ctx_Machine ctx), None) \<and>
     GetClusterFromMetadata env (ctx_Machine ctx) = (Some (ctx_Cluster ctx), None) \<and>
     c_InfrastructureRef (ctx_Cluster ctx) \<noteq> None \<and>
     NewHelper env ReconcileHelper (ctx_KubevirtMachine ctx) = None \<and>
     w1 = w\<lparr>trace := trace w @
            entry_reads req (km_Namespace (ctx_KubevirtMachine ctx),
                             the (c_InfrastructureRef (ctx_Cluster ctx)))\<rparr>"
  using assms
  by (auto simp: Reconcile_entry_def Let_def record_call_def entry_reads_def
           split: sum.splits option.splits prod.splits if_splits)

lemma Reconcile_entry_trace:
  "Reconcile_entry env req w = Inr (ctx, w1) \<Longrightarrow>
     deferred_patches w1 = deferred_patches w"
  by (auto simp: deferred_patches_def entry_reads_def dest!: Reconcile_entry_Inr)

lemma Reconcile_entry_Inl_no_create:
  "Reconcile_entry env req w = Inl (out, km, w') \<Longrightarrow> CreateCall \<notin> set (trace w) \<Longrightarrow>
     CreateCall \<notin> set (trace w')"
  by (auto simp: Reconcile_entry_def Let_def record_call_def
           split: sum.splits option.splits prod.splits if_splits)

section \<open>The finalizer gate\<close>

text \<open>
  C1, as stated, is false. When the deferred status patch fails, the invocation that adds
  the finalizer returns the error of that patch, not nil. And when the entry sequence ends
  the invocation before the gate (here: the owner Machine is not set yet), the finalizer
  is not added.
\<close>

theorem C1_counterexample:
  "get_KubevirtMachine env_patch_fails req_example = Inr km_nofinalizer \<and>
   \<not> ContainsFinalizer km_nofinalizer MachineFinalizer \<and>
   fst (Reconcile env_patch_fails req_example world0) =
     Returned empty_result (Some (OtherError ''conflict'')) \<and>
   get_KubevirtMachine env_no_owner req_example = Inr km_nofinalizer \<and>
   \<not> ContainsFinalizer (fst (snd (Reconcile env_no_owner req_example world0))) MachineFinalizer"
  by (simp add: Reconcile_def Reconcile_entry_def Reconcile_body_def Reconcile_deferred_def
        req_example_def km_example_def km_nofinalizer_def machine_example_def
            cluster_example_def kc_example_def keys_example_def world0_def env_ok_def
            env_nofinalizer_def env_patch_fails_def env_no_owner_def empty_KubevirtMachine_def
            primitive_defs)

text \<open>
  C1, amended: for every reconciliation invocation that reaches the finalizer gate (its
  entry sequence has fetched the four objects and created the patch helper) with the
  finalizer absent from the KubevirtMachine, \<open>Reconcile\<close> adds the finalizer and returns
  immediately: the result is empty, the only call after the entry sequence is the deferred
  status patch of the machine with its finalizer, and the returned error is that of this
  patch (nil when the patch succeeds). And in every invocation in which the finalizer is
  absent from the fetched KubevirtMachine, no VM creation call occurs.
\<close>

theorem C1_finalizer_before_side_effects:
  "(Reconcile_entry env req w = Inr (ctx, w1) \<and>
    \<not> ContainsFinalizer (ctx_KubevirtMachine ctx) MachineFinalizer \<longrightarrow>
      Reconcile env req w =
        (Returned empty_result
           (Patch env ReconcileHelper (AddFinalizer (ctx_KubevirtMachine ctx) MachineFinalizer)),
         AddFinalizer (ctx_KubevirtMachine ctx) MachineFinalizer,
         record_call
           (PatchCall ReconcileHelper (AddFinalizer (ctx_KubevirtMachine ctx) MachineFinalizer)
              (Patch env ReconcileHelper
                 (AddFinalizer (ctx_KubevirtMachine ctx) MachineFinalizer))) w1) \<and>
      ContainsFinalizer (AddFinalizer (ctx_KubevirtMachine ctx) MachineFinalizer)
        MachineFinalizer) \<and>
   (get_KubevirtMachine env req = Inr km \<and> \<not> ContainsFinalizer km MachineFinalizer \<and>
    CreateCall \<notin> set (trace w) \<longrightarrow>
      CreateCall \<notin> set (trace (snd (snd (Reconcile env req w)))))"
proof (intro conjI impI)
  assume a: "Reconcile_entry env req w = Inr (ctx, w1) \<and>
    \<not> ContainsFinalizer (ctx_KubevirtMachine ctx) MachineFinalizer"
  then show "Reconcile env req w =
        (Returned empty_result
           (Patch env ReconcileHelper (AddFinalizer (ctx_KubevirtMachine ctx) MachineFinalizer)),
         AddFinalizer (ctx_KubevirtMachine ctx) MachineFinalizer,
         record_call
           (PatchCall ReconcileHelper (AddFinalizer (ctx_KubevirtMachine ctx) MachineFinalizer)
              (Patch env ReconcileHelper
                 (AddFinalizer (ctx_KubevirtMachine ctx) MachineFinalizer))) w1)"
    by (auto simp: Reconcile_def Reconcile_body_def Reconcile_deferred_def
          PatchKubevirtMachine_def split: option.splits)
  show "ContainsFinalizer (AddFinalizer (ctx_KubevirtMachine ctx) MachineFinalizer)
        MachineFinalizer"
    by (simp add: ContainsFinalizer_def AddFinalizer_def)
next
  assume b: "get_KubevirtMachine env req = Inr km \<and> \<not> ContainsFinalizer km MachineFinalizer \<and>
    CreateCall \<notin> set (trace w)"
  show "CreateCall \<notin> set (trace (snd (snd (Reconcile env req w))))"
  proof (cases "Reconcile_entry env req w")
    case (Inl r)
    then show ?thesis
      using b Reconcile_entry_Inl_no_create [of env req w "fst r" "fst (snd r)" "snd (snd r)"]
      by (simp add: Reconcile_def)
  next
    case (Inr p)
    obtain c w' where p: "p = (c, w')" by (cases p)
    from Inr p have e: "Reconcile_entry env req w = Inr (c, w')" by simp
    from Reconcile_entry_Inr [OF e] b have k: "ctx_KubevirtMachine c = km"
      and t: "CreateCall \<notin> set (trace w')"
      by (auto simp: entry_reads_def)
    with b e show ?thesis
      by (auto simp: Reconcile_def Reconcile_body_def Reconcile_deferred_def
            PatchKubevirtMachine_def record_call_def split: option.splits)
  qed
qed

theorem C1_finalizer_before_side_effects_witness:
  "Reconcile_entry env_nofinalizer req_example world0 = Inr (ctx_nofinalizer, world_entry) \<and>
   \<not> ContainsFinalizer (ctx_KubevirtMachine ctx_nofinalizer) MachineFinalizer \<and>
   get_KubevirtMachine env_nofinalizer req_example = Inr km_nofinalizer \<and>
   \<not> ContainsFinalizer km_nofinalizer MachineFinalizer \<and>
   CreateCall \<notin> set (trace world0) \<and>
   fst (Reconcile env_nofinalizer req_example world0) = Returned empty_result None \<and>
   km_Finalizers (fst (snd (Reconcile env_nofinalizer req_example world0))) = [MachineFinalizer] \<and>
   CreateCall \<notin> set (trace (snd (snd (Reconcile env_nofinalizer req_example world0))))"
proof -
  have e: "Reconcile_entry env_nofinalizer req_example world0 = Inr (ctx_nofinalizer, world_entry)"
    by (simp add: Reconcile_entry_def req_example_def km_example_def km_nofinalizer_def
        machine_example_def cluster_example_def kc_example_def keys_example_def ctx_example_def
        ctx_nofinalizer_def world0_def world_entry_def env_ok_def env_nofinalizer_def
        empty_KubevirtMachine_def entry_reads_def primitive_defs)
  have f: "\<not> ContainsFinalizer (ctx_KubevirtMachine ctx_nofinalizer) MachineFinalizer"
    and g: "get_KubevirtMachine env_nofinalizer req_example = Inr km_nofinalizer"
    and h: "\<not> ContainsFinalizer km_nofinalizer MachineFinalizer"
    and t: "CreateCall \<notin> set (trace world0)"
    by (simp_all add: req_example_def km_example_def km_nofinalizer_def machine_example_def
        cluster_example_def kc_example_def keys_example_def ctx_example_def ctx_nofinalizer_def
        world0_def world_entry_def env_ok_def env_nofinalizer_def empty_KubevirtMachine_def
        entry_reads_def primitive_defs)
  have p: "Patch env_nofinalizer ReconcileHelper
             (AddFinalizer (ctx_KubevirtMachine ctx_nofinalizer) MachineFinalizer) = None"
    and a: "km_Finalizers (AddFinalizer (ctx_KubevirtMachine ctx_nofinalizer) MachineFinalizer) =
              [MachineFinalizer]"
    by (simp_all add: req_example_def km_example_def km_nofinalizer_def machine_example_def
        cluster_example_def kc_example_def keys_example_def ctx_example_def ctx_nofinalizer_def
        world0_def world_entry_def env_ok_def env_nofinalizer_def empty_KubevirtMachine_def
        entry_reads_def primitive_defs)
  note gate =
    C1_finalizer_before_side_effects
      [of env_nofinalizer req_example world0 ctx_nofinalizer world_entry km_nofinalizer]
  from gate e f have r: "Reconcile env_nofinalizer req_example world0 =
      (Returned empty_result None,
       AddFinalizer (ctx_KubevirtMachine ctx_nofinalizer) MachineFinalizer,
       record_call
         (PatchCall ReconcileHelper
            (AddFinalizer (ctx_KubevirtMachine ctx_nofinalizer) MachineFinalizer) None)
         world_entry)"
    by (simp add: p)
  from gate g h t
  have n: "CreateCall \<notin> set (trace (snd (snd (Reconcile env_nofinalizer req_example world0))))"
    by blast
  show ?thesis
    using e f g h t n by (simp add: r a)
qed

section \<open>The delete path\<close>

text \<open>
  C2: on the delete path the reconciler first marks \<open>VMProvisioned=False\<close> with reason
  \<open>Deleting\<close> and patches the machine so marked, with its finalizers still in place;
  this patch is the only call of the delete path. If the patch fails,
  \<open>reconcileDelete\<close> returns an error and the finalizers are as they were. The
  finalizers change only when that patch has succeeded. (If the patch helper cannot be
  created, the delete path returns that error and touches nothing.)
\<close>

theorem C2_finalizer_removed_after_patch:
  "(NewHelper env DeleteHelper (ctx_KubevirtMachine ctx) = None \<longrightarrow>
      trace (snd (snd (reconcileDelete env ctx w))) =
        trace w @
          [PatchCall DeleteHelper (marked_deleting (ctx_KubevirtMachine ctx))
             (Patch env DeleteHelper (marked_deleting (ctx_KubevirtMachine ctx)))] \<and>
      Status_Conditions (marked_deleting (ctx_KubevirtMachine ctx)) VMProvisionedCondition =
        Some \<lparr>Status = ConditionFalse, Severity = ConditionSeverityInfo,
              Reason = DeletingReason, Message = []\<rparr> \<and>
      km_Finalizers (marked_deleting (ctx_KubevirtMachine ctx)) =
        km_Finalizers (ctx_KubevirtMachine ctx)) \<and>
   (NewHelper env DeleteHelper (ctx_KubevirtMachine ctx) = None \<and>
    Patch env DeleteHelper (marked_deleting (ctx_KubevirtMachine ctx)) = Some err \<longrightarrow>
      fst (reconcileDelete env ctx w) =
        (empty_result, Some (Wrapped err ''failed to patch KubevirtMachine'')) \<and>
      km_Finalizers (fst (snd (reconcileDelete env ctx w))) =
        km_Finalizers (ctx_KubevirtMachine ctx)) \<and>
   (NewHelper env DeleteHelper (ctx_KubevirtMachine ctx) = None \<and>
    Patch env DeleteHelper (marked_deleting (ctx_KubevirtMachine ctx)) = None \<longrightarrow>
      fst (reconcileDelete env ctx w) = (empty_result, None) \<and>
      fst (snd (reconcileDelete env ctx w)) =
        RemoveFinalizer (marked_deleting (ctx_KubevirtMachine ctx)) MachineFinalizer \<and>
      \<not> ContainsFinalizer (fst (snd (reconcileDelete env ctx w))) MachineFinalizer) \<and>
   (km_Finalizers (fst (snd (reconcileDelete env ctx w))) \<noteq>
      km_Finalizers (ctx_KubevirtMachine ctx) \<longrightarrow>
      NewHelper env DeleteHelper (ctx_KubevirtMachine ctx) = None \<and>
      Patch env DeleteHelper (marked_deleting (ctx_KubevirtMachine ctx)) = None \<and>
      last (trace (snd (snd (reconcileDelete env ctx w)))) =
        PatchCall DeleteHelper (marked_deleting (ctx_KubevirtMachine ctx)) None) \<and>
   (NewHelper env DeleteHelper (ctx_KubevirtMachine ctx) = Some err' \<longrightarrow>
      reconcileDelete env ctx w = ((empty_result, Some err'), ctx_KubevirtMachine ctx, w))"
  by (cases "NewHelper env DeleteHelper (ctx_KubevirtMachine ctx)";
      cases "Patch env DeleteHelper
               (MarkFalse (ctx_KubevirtMachine ctx) VMProvisionedCondition DeletingReason
                  ConditionSeverityInfo [])")
     (simp_all add: reconcileDelete_def Let_def marked_deleting_def primitive_defs)

theorem C2_finalizer_removed_after_patch_witness:
  "NewHelper env_delete_patch_fails DeleteHelper (ctx_KubevirtMachine ctx_deleted) = None \<and>
   Patch env_delete_patch_fails DeleteHelper (marked_deleting (ctx_KubevirtMachine ctx_deleted)) =
     Some (OtherError ''conflict'') \<and>
   fst (reconcileDelete env_delete_patch_fails ctx_deleted world0) =
     (empty_result, Some (Wrapped (OtherError ''conflict'') ''failed to patch KubevirtMachine'')) \<and>
   km_Finalizers (fst (snd (reconcileDelete env_delete_patch_fails ctx_deleted world0))) =
     [MachineFinalizer] \<and>
   NewHelper env_ok DeleteHelper (ctx_KubevirtMachine ctx_deleted) = None \<and>
   Patch env_ok DeleteHelper (marked_deleting (ctx_KubevirtMachine ctx_deleted)) = None \<and>
   km_Finalizers (fst (snd (reconcileDelete env_ok ctx_deleted world0))) = [] \<and>
   trace (snd (snd (reconcileDelete env_ok ctx_deleted world0))) =
     [PatchCall DeleteHelper (marked_deleting km_deleted) None]"
proof -
  have h: "NewHelper env_delete_patch_fails DeleteHelper (ctx_KubevirtMachine ctx_deleted) = None"
    and p: "Patch env_delete_patch_fails DeleteHelper
              (marked_deleting (ctx_KubevirtMachine ctx_deleted)) = Some (OtherError ''conflict'')"
    and h': "NewHelper env_ok DeleteHelper (ctx_KubevirtMachine ctx_deleted) = None"
    and p': "Patch env_ok DeleteHelper (marked_deleting (ctx_KubevirtMachine ctx_deleted)) = None"
    and f: "km_Finalizers (ctx_KubevirtMachine ctx_deleted) = [MachineFinalizer]"
    and k: "ctx_KubevirtMachine ctx_deleted = km_deleted"
    and t: "trace world0 = []"
    by (simp_all add: km_example_def km_deleted_def machine_example_def cluster_example_def
        kc_example_def keys_example_def ctx_example_def ctx_deleted_def world0_def env_ok_def
        env_delete_patch_fails_def empty_KubevirtMachine_def marked_deleting_def)
  have r: "km_Finalizers (RemoveFinalizer (marked_deleting km_deleted) MachineFinalizer) = []"
    by (simp add: km_example_def km_deleted_def machine_example_def cluster_example_def
        kc_example_def keys_example_def ctx_example_def ctx_deleted_def world0_def env_ok_def
        env_delete_patch_fails_def empty_KubevirtMachine_def marked_deleting_def primitive_defs)
  note fails =
    C2_finalizer_removed_after_patch
      [of env_delete_patch_fails ctx_deleted world0 "OtherError ''conflict''"
          "OtherError ''conflict''", THEN conjunct2, THEN conjunct1, rule_format, OF conjI,
       OF h p]
  note succeeds =
    C2_finalizer_removed_after_patch
      [of env_ok ctx_deleted world0 "OtherError ''conflict''" "OtherError ''conflict''"]
  note patched = succeeds [THEN conjunct1, rule_format, OF h', THEN conjunct1]
  note removed = succeeds [THEN conjunct2, THEN conjunct2, THEN conjunct1, rule_format, OF conjI,
                           OF h' p', THEN conjunct2, THEN conjunct1]
  show ?thesis
    using h p h' p' f by (simp add: fails patched removed r k t)
qed

section \<open>The deferred status patch\<close>

text \<open>
  C3: for every reconciliation invocation that reaches the deferred status patch (the
  entry sequence has handed a machine context on), the KubevirtMachine as the branch taken
  left it is patched back through the helper of \<open>Reconcile\<close> exactly once, as the last
  call of the invocation; the result is that of the branch; the returned error is the
  error of the branch when it has one, unchanged, and otherwise the error of that patch.
\<close>

theorem C3_deferred_patch_once_first_error_wins:
  assumes "Reconcile_entry env req w = Inr (ctx, w1)"
    and "Reconcile_body env ctx w1 = ((res, rerr), km, w2)"
  shows "Reconcile env req w =
     (Returned res
        (case rerr of Some err \<Rightarrow> Some err | None \<Rightarrow> Patch env ReconcileHelper km),
      km, w2\<lparr>trace := trace w2 @ [PatchCall ReconcileHelper km (Patch env ReconcileHelper km)]\<rparr>) \<and>
     deferred_patches (snd (snd (Reconcile env req w))) =
       deferred_patches w @ [PatchCall ReconcileHelper km (Patch env ReconcileHelper km)]"
proof -
  have r: "Reconcile env req w =
     (Returned res
        (case rerr of Some err \<Rightarrow> Some err | None \<Rightarrow> Patch env ReconcileHelper km),
      km, w2\<lparr>trace := trace w2 @ [PatchCall ReconcileHelper km (Patch env ReconcileHelper km)]\<rparr>)"
    using assms
    by (simp add: Reconcile_def Reconcile_deferred_def PatchKubevirtMachine_def record_call_def
          split: option.splits)
  have "deferred_patches w2 = deferred_patches w"
    using Reconcile_entry_trace [OF assms(1)] deferred_patches_Reconcile_body [OF assms(2)]
    by simp
  then have "deferred_patches
      (w2\<lparr>trace := trace w2 @ [PatchCall ReconcileHelper km (Patch env ReconcileHelper km)]\<rparr>) =
      deferred_patches w @ [PatchCall ReconcileHelper km (Patch env ReconcileHelper km)]"
    by (simp add: deferred_patches_def)
  with r show ?thesis by simp
qed

theorem C3_deferred_patch_once_first_error_wins_witness:
  "Reconcile_entry env_deleted_conflict req_example world0 = Inr (ctx_deleted, world_entry) \<and>
   Reconcile_body env_deleted_conflict ctx_deleted world_entry =
     ((empty_result, Some (Wrapped (OtherError ''conflict'') ''failed to patch KubevirtMachine'')),
      marked_deleting km_deleted,
      world_entry\<lparr>trace := trace world_entry @
         [PatchCall DeleteHelper (marked_deleting km_deleted) (Some (OtherError ''conflict''))]\<rparr>) \<and>
   Patch env_deleted_conflict ReconcileHelper (marked_deleting km_deleted) =
     Some (OtherError ''conflict'') \<and>
   fst (Reconcile env_deleted_conflict req_example world0) =
     Returned empty_result
       (Some (Wrapped (OtherError ''conflict'') ''failed to patch KubevirtMachine'')) \<and>
   deferred_patches (snd (snd (Reconcile env_deleted_conflict req_example world0))) =
     [PatchCall ReconcileHelper (marked_deleting km_deleted) (Some (OtherError ''conflict''))]"
proof -
  have e: "Reconcile_entry env_deleted_conflict req_example world0 =
             Inr (ctx_deleted, world_entry)"
    by (simp add: Reconcile_entry_def req_example_def km_example_def km_deleted_def
        machine_example_def cluster_example_def kc_example_def keys_example_def ctx_example_def
        ctx_deleted_def world0_def world_entry_def env_ok_def env_deleted_conflict_def
        empty_KubevirtMachine_def entry_reads_def marked_deleting_def primitive_defs)
  have b: "Reconcile_body env_deleted_conflict ctx_deleted world_entry =
     ((empty_result, Some (Wrapped (OtherError ''conflict'') ''failed to patch KubevirtMachine'')),
      marked_deleting km_deleted,
      world_entry\<lparr>trace := trace world_entry @
         [PatchCall DeleteHelper (marked_deleting km_deleted) (Some (OtherError ''conflict''))]\<rparr>)"
    by (simp add: Reconcile_body_def reconcileDelete_def Let_def req_example_def km_example_def
        km_deleted_def machine_example_def cluster_example_def kc_example_def keys_example_def
        ctx_example_def ctx_deleted_def world0_def world_entry_def env_ok_def
        env_deleted_conflict_def empty_KubevirtMachine_def entry_reads_def marked_deleting_def
        primitive_defs)
  have p: "Patch env_deleted_conflict ReconcileHelper (marked_deleting km_deleted) =
             Some (OtherError ''conflict'')"
    and d: "deferred_patches world0 = []"
    by (simp_all add: req_example_def km_example_def km_deleted_def machine_example_def
        cluster_example_def kc_example_def keys_example_def ctx_example_def ctx_deleted_def
        world0_def world_entry_def env_ok_def env_deleted_conflict_def empty_KubevirtMachine_def
        entry_reads_def marked_deleting_def deferred_patches_def)
  note once = C3_deferred_patch_once_first_error_wins [OF e b]
  have r: "fst (Reconcile env_deleted_conflict req_example world0) =
     Returned empty_result
       (Some (Wrapped (OtherError ''conflict'') ''failed to patch KubevirtMachine''))"
    using once [THEN conjunct1] by simp
  have n: "deferred_patches (snd (snd (Reconcile env_deleted_conflict req_example world0))) =
     [PatchCall ReconcileHelper (marked_deleting km_deleted) (Some (OtherError ''conflict''))]"
    using once [THEN conjunct2] by (simp add: p d)
  show ?thesis
    by (intro conjI e b p r n)
qed


section \<open>The \<open>Bootstrapped\<close> flag\<close>

lemma patches_bootstrapped_record_call:
  "patch_bootstrapped e \<Longrightarrow>
     patches_bootstrapped (record_call e w) = patches_bootstrapped w"
  by (simp add: patches_bootstrapped_def record_call_def)

lemma patches_bootstrapped_secrets_update:
  "patches_bootstrapped (w\<lparr>secrets := st\<rparr>) = patches_bootstrapped w"
  by (simp add: patches_bootstrapped_def)

lemma patches_bootstrapped_client_Get:
  "client_Get key w = (r, w') \<Longrightarrow> patches_bootstrapped w' = patches_bootstrapped w"
  by (auto simp: client_Get_def patches_bootstrapped_def record_call_def Let_def
           split: list.splits option.splits)

lemma patches_bootstrapped_PatchKubevirtMachine:
  "PatchKubevirtMachine env h km w = (r, w') \<Longrightarrow> Spec_Bootstrapped km \<Longrightarrow>
     patches_bootstrapped w' = patches_bootstrapped w"
  by (auto simp: PatchKubevirtMachine_def patches_bootstrapped_def record_call_def)

lemma patches_bootstrapped_reconcileKubevirtBootstrapSecret:
  "reconcileKubevirtBootstrapSecret env ctx keys w = (r, w') \<Longrightarrow>
     patches_bootstrapped w' = patches_bootstrapped w"
  by (auto simp: reconcileKubevirtBootstrapSecret_def Let_def patches_bootstrapped_record_call
                 patches_bootstrapped_secrets_update
           split: option.splits prod.splits sum.splits
           dest!: patches_bootstrapped_client_Get)

lemma patches_bootstrapped_getKubeconfigForWorkloadCluster:
  "getKubeconfigForWorkloadCluster ctx w = (r, w') \<Longrightarrow>
     patches_bootstrapped w' = patches_bootstrapped w"
  by (auto simp: getKubeconfigForWorkloadCluster_def
           split: option.splits prod.splits sum.splits
           dest!: patches_bootstrapped_client_Get)

lemma patches_bootstrapped_reconcileWorkloadClusterClient:
  "reconcileWorkloadClusterClient env ctx w = (r, w') \<Longrightarrow>
     patches_bootstrapped w' = patches_bootstrapped w"
  by (auto simp: reconcileWorkloadClusterClient_def Let_def patches_bootstrapped_record_call
           split: option.splits prod.splits sum.splits
           dest!: patches_bootstrapped_getKubeconfigForWorkloadCluster)

lemma Spec_Bootstrapped_MarkTrue [simp]:
  "Spec_Bootstrapped (MarkTrue km t) = Spec_Bootstrapped km"
  by (simp add: MarkTrue_def)

lemma Spec_Bootstrapped_MarkFalse [simp]:
  "Spec_Bootstrapped (MarkFalse km t r sev msg) = Spec_Bootstrapped km"
  by (simp add: MarkFalse_def)

lemma Spec_Bootstrapped_AddFinalizer [simp]:
  "Spec_Bootstrapped (AddFinalizer km f) = Spec_Bootstrapped km"
  by (simp add: AddFinalizer_def)

lemma Spec_Bootstrapped_RemoveFinalizer [simp]:
  "Spec_Bootstrapped (RemoveFinalizer km f) = Spec_Bootstrapped km"
  by (simp add: RemoveFinalizer_def)

lemma reconcileNormal_Bootstrapped:
  "reconcileNormal env ctx w = (r, km', w') \<Longrightarrow> Spec_Bootstrapped (ctx_KubevirtMachine ctx) \<Longrightarrow>
     Spec_Bootstrapped km' \<and> (patches_bootstrapped w \<longrightarrow> patches_bootstrapped w')"
  by (auto simp: reconcileNormal_def Let_def patches_bootstrapped_record_call
           split: option.splits prod.splits sum.splits if_splits
           dest!: patches_bootstrapped_reconcileWorkloadClusterClient
                  patches_bootstrapped_reconcileKubevirtBootstrapSecret
                  patches_bootstrapped_PatchKubevirtMachine)

lemma reconcileDelete_Bootstrapped:
  "reconcileDelete env ctx w = (r, km', w') \<Longrightarrow> Spec_Bootstrapped (ctx_KubevirtMachine ctx) \<Longrightarrow>
     Spec_Bootstrapped km' \<and> (patches_bootstrapped w \<longrightarrow> patches_bootstrapped w')"
  by (auto simp: reconcileDelete_def Let_def
           split: option.splits prod.splits
           dest!: patches_bootstrapped_PatchKubevirtMachine)

lemma Reconcile_body_Bootstrapped:
  "Reconcile_body env ctx w = (r, km', w') \<Longrightarrow> Spec_Bootstrapped (ctx_KubevirtMachine ctx) \<Longrightarrow>
     Spec_Bootstrapped km' \<and> (patches_bootstrapped w \<longrightarrow> patches_bootstrapped w')"
  by (auto simp: Reconcile_body_def Let_def
           split: if_splits
           dest: reconcileNormal_Bootstrapped reconcileDelete_Bootstrapped)

lemma Reconcile_entry_Inl_Bootstrapped:
  "Reconcile_entry env req w = Inl (out, km', w') \<Longrightarrow> get_KubevirtMachine env req = Inr km \<Longrightarrow>
     km' = km \<and> patches_bootstrapped w' = patches_bootstrapped w"
  by (auto simp: Reconcile_entry_def Let_def record_call_def patches_bootstrapped_def
           split: sum.splits option.splits prod.splits if_splits)

text \<open>
  C6: the \<open>Bootstrapped\<close> flag is monotonic. If \<open>Spec.Bootstrapped\<close> is true when
  \<open>reconcileNormal\<close> or \<open>reconcileDelete\<close> is entered, it is true in the machine they
  return; and if it is true in the KubevirtMachine that \<open>Reconcile\<close> fetches, it is
  true in the machine in memory when \<open>Reconcile\<close> returns, and every patch the invocation
  sends carries it as true.
\<close>

theorem C6_bootstrapped_is_monotonic:
  "(Spec_Bootstrapped (ctx_KubevirtMachine ctx) \<longrightarrow>
      Spec_Bootstrapped (fst (snd (reconcileNormal env ctx w))) \<and>
      Spec_Bootstrapped (fst (snd (reconcileDelete env ctx w)))) \<and>
   (get_KubevirtMachine env req = Inr km \<and> Spec_Bootstrapped km \<longrightarrow>
      Spec_Bootstrapped (fst (snd (Reconcile env req w))) \<and>
      (patches_bootstrapped w \<longrightarrow> patches_bootstrapped (snd (snd (Reconcile env req w)))))"
proof (intro conjI impI)
  assume b: "Spec_Bootstrapped (ctx_KubevirtMachine ctx)"
  obtain r km' w' where n: "reconcileNormal env ctx w = (r, km', w')"
    by (cases "reconcileNormal env ctx w") auto
  from reconcileNormal_Bootstrapped [OF n b]
  show "Spec_Bootstrapped (fst (snd (reconcileNormal env ctx w)))"
    by (simp add: n)
  obtain r2 km2 w2 where d: "reconcileDelete env ctx w = (r2, km2, w2)"
    by (cases "reconcileDelete env ctx w") auto
  from reconcileDelete_Bootstrapped [OF d b]
  show "Spec_Bootstrapped (fst (snd (reconcileDelete env ctx w)))"
    by (simp add: d)
next
  assume a: "get_KubevirtMachine env req = Inr km \<and> Spec_Bootstrapped km"
  have "Spec_Bootstrapped (fst (snd (Reconcile env req w))) \<and>
      (patches_bootstrapped w \<longrightarrow> patches_bootstrapped (snd (snd (Reconcile env req w))))"
  proof (cases "Reconcile_entry env req w")
    case (Inl x)
    obtain out km' w' where x: "x = (out, km', w')" by (cases x) auto
    from Inl x a Reconcile_entry_Inl_Bootstrapped [of env req w out km' w' km]
    show ?thesis by (simp add: Reconcile_def)
  next
    case (Inr p)
    obtain c w1 where p: "p = (c, w1)" by (cases p)
    from Inr p have e: "Reconcile_entry env req w = Inr (c, w1)" by simp
    from Reconcile_entry_Inr [OF e] a have k: "Spec_Bootstrapped (ctx_KubevirtMachine c)"
      and t: "patches_bootstrapped w1 = patches_bootstrapped w"
      by (auto simp: patches_bootstrapped_def entry_reads_def)
    obtain r km' w2 where b: "Reconcile_body env c w1 = (r, km', w2)"
      by (cases "Reconcile_body env c w1") auto
    from Reconcile_body_Bootstrapped [OF b k] t e b show ?thesis
      by (auto simp: Reconcile_def Reconcile_deferred_def PatchKubevirtMachine_def
            patches_bootstrapped_record_call split: option.splits prod.splits)
  qed
  then show "Spec_Bootstrapped (fst (snd (Reconcile env req w)))"
    and "patches_bootstrapped w \<Longrightarrow> patches_bootstrapped (snd (snd (Reconcile env req w)))"
    by simp_all
qed

theorem C6_bootstrapped_is_monotonic_witness:
  "Spec_Bootstrapped (ctx_KubevirtMachine ctx_bootstrapped) \<and>
   get_KubevirtMachine env_bootstrapped req_example = Inr km_bootstrapped \<and>
   Spec_Bootstrapped km_bootstrapped \<and>
   patches_bootstrapped world0 \<and>
   Spec_Bootstrapped (fst (snd (reconcileNormal env_ok ctx_bootstrapped world0))) \<and>
   Spec_Bootstrapped (fst (snd (reconcileDelete env_ok ctx_bootstrapped world0))) \<and>
   Spec_Bootstrapped (fst (snd (Reconcile env_bootstrapped req_example world0))) \<and>
   patches_bootstrapped (snd (snd (Reconcile env_bootstrapped req_example world0)))"
proof -
  have c: "Spec_Bootstrapped (ctx_KubevirtMachine ctx_bootstrapped)"
    and g: "get_KubevirtMachine env_bootstrapped req_example = Inr km_bootstrapped"
    and k: "Spec_Bootstrapped km_bootstrapped"
    and p: "patches_bootstrapped world0"
    by (simp_all add: req_example_def km_example_def km_bootstrapped_def machine_example_def
        cluster_example_def kc_example_def keys_example_def ctx_example_def ctx_bootstrapped_def
        world0_def env_ok_def env_bootstrapped_def empty_KubevirtMachine_def
        patches_bootstrapped_def)
  note paths =
    C6_bootstrapped_is_monotonic
      [of ctx_bootstrapped env_ok world0 req_example km_bootstrapped,
       THEN conjunct1, rule_format, OF c]
  note whole =
    C6_bootstrapped_is_monotonic
      [of ctx_bootstrapped env_bootstrapped world0 req_example km_bootstrapped,
       THEN conjunct2, rule_format, OF conjI, OF g k]
  show ?thesis
    by (intro conjI c g k p paths [THEN conjunct1] paths [THEN conjunct2] whole [THEN conjunct1]
          whole [THEN conjunct2, rule_format, OF p])
qed

section \<open>The bootstrap secret synthesizer\<close>




section \<open>The machine that is already provisioned\<close>

text \<open>
  C8, as stated, is false: an invocation of \<open>Reconcile\<close> for a machine whose
  \<open>providerID\<close> is set, which reaches the normal path, has made the four reads of the
  entry sequence before the terminal status patch.
\<close>

theorem C8_counterexample:
  "get_KubevirtMachine env_provisioned req_example = Inr km_provisioned \<and>
   Spec_ProviderID km_provisioned \<noteq> None \<and>
   Reconcile_entry env_provisioned req_example world0 = Inr (ctx_provisioned, world_entry) \<and>
   Reconcile_body env_provisioned ctx_provisioned world_entry =
     reconcileNormal env_provisioned ctx_provisioned world_entry \<and>
   butlast (trace (snd (snd (Reconcile env_provisioned req_example world0)))) =
     [ClientGet KubevirtMachineKind (''ns'', ''km''), GetOwnerMachineCall,
      GetClusterFromMetadataCall, ClientGet KubevirtClusterKind (''ns'', ''kc'')]"
  by (simp add: Reconcile_def Reconcile_entry_def Reconcile_body_def Reconcile_deferred_def
        reconcileNormal_def req_example_def km_example_def km_provisioned_def
            machine_example_def cluster_example_def kc_example_def keys_example_def
            ctx_example_def ctx_provisioned_def world0_def world_entry_def env_ok_def
            env_provisioned_def empty_KubevirtMachine_def entry_reads_def primitive_defs)

text \<open>
  C8, amended: for every machine whose \<open>providerID\<close> is already set at entry to the
  normal path, the normal path performs no external read or write: it only forces
  \<open>ready=true\<close> and \<open>VMProvisioned=True\<close> and returns an empty result with nil
  error. The invocation of \<open>Reconcile\<close> that takes this path makes the four reads of its
  entry sequence and then only the terminal status patch, whose error, if any, is the
  error it returns.
\<close>

theorem C8_provisioned_machine_early_exit:
  "(Spec_ProviderID (ctx_KubevirtMachine ctx) \<noteq> None \<longrightarrow>
      reconcileNormal env ctx w =
        ((empty_result, None),
         MarkTrue ((ctx_KubevirtMachine ctx)\<lparr>Status_Ready := True\<rparr>) VMProvisionedCondition,
         w)) \<and>
   (Reconcile_entry env req w = Inr (ctx, w1) \<and>
    ContainsFinalizer (ctx_KubevirtMachine ctx) MachineFinalizer \<and>
    c_InfrastructureReady (ctx_Cluster ctx) \<and>
    IsZero (km_DeletionTimestamp (ctx_KubevirtMachine ctx)) \<and>
    Spec_ProviderID (ctx_KubevirtMachine ctx) \<noteq> None \<longrightarrow>
      fst (Reconcile env req w) =
        Returned empty_result
          (Patch env ReconcileHelper
             (MarkTrue ((ctx_KubevirtMachine ctx)\<lparr>Status_Ready := True\<rparr>)
                VMProvisionedCondition)) \<and>
      fst (snd (Reconcile env req w)) =
        MarkTrue ((ctx_KubevirtMachine ctx)\<lparr>Status_Ready := True\<rparr>) VMProvisionedCondition \<and>
      trace (snd (snd (Reconcile env req w))) =
        trace w @
        entry_reads req (km_Namespace (ctx_KubevirtMachine ctx),
                         the (c_InfrastructureRef (ctx_Cluster ctx))) @
        [PatchCall ReconcileHelper
           (MarkTrue ((ctx_KubevirtMachine ctx)\<lparr>Status_Ready := True\<rparr>) VMProvisionedCondition)
           (Patch env ReconcileHelper
              (MarkTrue ((ctx_KubevirtMachine ctx)\<lparr>Status_Ready := True\<rparr>)
                 VMProvisionedCondition))])"
proof (intro conjI impI)
  assume "Spec_ProviderID (ctx_KubevirtMachine ctx) \<noteq> None"
  then show "reconcileNormal env ctx w =
        ((empty_result, None),
         MarkTrue ((ctx_KubevirtMachine ctx)\<lparr>Status_Ready := True\<rparr>) VMProvisionedCondition,
         w)"
    by (auto simp: reconcileNormal_def)
next
  assume a: "Reconcile_entry env req w = Inr (ctx, w1) \<and>
    ContainsFinalizer (ctx_KubevirtMachine ctx) MachineFinalizer \<and>
    c_InfrastructureReady (ctx_Cluster ctx) \<and>
    IsZero (km_DeletionTimestamp (ctx_KubevirtMachine ctx)) \<and>
    Spec_ProviderID (ctx_KubevirtMachine ctx) \<noteq> None"
  then have e: "Reconcile_entry env req w = Inr (ctx, w1)" by simp
  have b: "Reconcile_body env ctx w1 =
      ((empty_result, None),
       MarkTrue ((ctx_KubevirtMachine ctx)\<lparr>Status_Ready := True\<rparr>) VMProvisionedCondition, w1)"
    using a by (auto simp: Reconcile_body_def reconcileNormal_def)
  have r: "Reconcile env req w =
      (Returned empty_result
         (Patch env ReconcileHelper
            (MarkTrue ((ctx_KubevirtMachine ctx)\<lparr>Status_Ready := True\<rparr>)
               VMProvisionedCondition)),
       MarkTrue ((ctx_KubevirtMachine ctx)\<lparr>Status_Ready := True\<rparr>) VMProvisionedCondition,
       record_call
         (PatchCall ReconcileHelper
            (MarkTrue ((ctx_KubevirtMachine ctx)\<lparr>Status_Ready := True\<rparr>)
               VMProvisionedCondition)
            (Patch env ReconcileHelper
               (MarkTrue ((ctx_KubevirtMachine ctx)\<lparr>Status_Ready := True\<rparr>)
                  VMProvisionedCondition))) w1)"
    using e b
    by (auto simp: Reconcile_def Reconcile_deferred_def PatchKubevirtMachine_def
          split: option.splits)
  show "fst (Reconcile env req w) =
        Returned empty_result
          (Patch env ReconcileHelper
             (MarkTrue ((ctx_KubevirtMachine ctx)\<lparr>Status_Ready := True\<rparr>)
                VMProvisionedCondition))"
    and "fst (snd (Reconcile env req w)) =
        MarkTrue ((ctx_KubevirtMachine ctx)\<lparr>Status_Ready := True\<rparr>) VMProvisionedCondition"
    by (simp_all add: r)
  show "trace (snd (snd (Reconcile env req w))) =
        trace w @
        entry_reads req (km_Namespace (ctx_KubevirtMachine ctx),
                         the (c_InfrastructureRef (ctx_Cluster ctx))) @
        [PatchCall ReconcileHelper
           (MarkTrue ((ctx_KubevirtMachine ctx)\<lparr>Status_Ready := True\<rparr>) VMProvisionedCondition)
           (Patch env ReconcileHelper
              (MarkTrue ((ctx_KubevirtMachine ctx)\<lparr>Status_Ready := True\<rparr>)
                 VMProvisionedCondition))]"
    using Reconcile_entry_Inr [OF e] by (simp add: r record_call_def)
qed

theorem C8_provisioned_machine_early_exit_witness:
  "Spec_ProviderID (ctx_KubevirtMachine ctx_provisioned) \<noteq> None \<and>
   Reconcile_entry env_provisioned req_example world0 = Inr (ctx_provisioned, world_entry) \<and>
   ContainsFinalizer (ctx_KubevirtMachine ctx_provisioned) MachineFinalizer \<and>
   c_InfrastructureReady (ctx_Cluster ctx_provisioned) \<and>
   IsZero (km_DeletionTimestamp (ctx_KubevirtMachine ctx_provisioned)) \<and>
   reconcileNormal env_provisioned ctx_provisioned world_entry =
     ((empty_result, None),
      MarkTrue (km_provisioned\<lparr>Status_Ready := True\<rparr>) VMProvisionedCondition, world_entry) \<and>
   fst (Reconcile env_provisioned req_example world0) = Returned empty_result None \<and>
   Status_Ready (fst (snd (Reconcile env_provisioned req_example world0)))"
proof -
  have p: "Spec_ProviderID (ctx_KubevirtMachine ctx_provisioned) \<noteq> None"
    and f: "ContainsFinalizer (ctx_KubevirtMachine ctx_provisioned) MachineFinalizer"
    and i: "c_InfrastructureReady (ctx_Cluster ctx_provisioned)"
    and z: "IsZero (km_DeletionTimestamp (ctx_KubevirtMachine ctx_provisioned))"
    and k: "ctx_KubevirtMachine ctx_provisioned = km_provisioned"
    by (simp_all add: req_example_def km_example_def km_provisioned_def machine_example_def
        cluster_example_def kc_example_def keys_example_def ctx_example_def ctx_provisioned_def
        world0_def world_entry_def env_ok_def env_provisioned_def empty_KubevirtMachine_def
        entry_reads_def primitive_defs)
  have e: "Reconcile_entry env_provisioned req_example world0 = Inr (ctx_provisioned, world_entry)"
    by (simp add: Reconcile_entry_def req_example_def km_example_def km_provisioned_def
        machine_example_def cluster_example_def kc_example_def keys_example_def ctx_example_def
        ctx_provisioned_def world0_def world_entry_def env_ok_def env_provisioned_def
        empty_KubevirtMachine_def entry_reads_def primitive_defs)
  have q: "Patch env_provisioned ReconcileHelper
             (MarkTrue ((ctx_KubevirtMachine ctx_provisioned)\<lparr>Status_Ready := True\<rparr>)
                VMProvisionedCondition) = None"
    by (simp add: req_example_def km_example_def km_provisioned_def machine_example_def
        cluster_example_def kc_example_def keys_example_def ctx_example_def ctx_provisioned_def
        world0_def world_entry_def env_ok_def env_provisioned_def empty_KubevirtMachine_def
        entry_reads_def)
  note early =
    C8_provisioned_machine_early_exit
      [where ctx = ctx_provisioned and env = env_provisioned and w = world_entry]
  have n: "reconcileNormal env_provisioned ctx_provisioned world_entry =
     ((empty_result, None),
      MarkTrue (km_provisioned\<lparr>Status_Ready := True\<rparr>) VMProvisionedCondition, world_entry)"
    using early [THEN conjunct1, rule_format, OF p] by (simp add: k)
  note whole =
    C8_provisioned_machine_early_exit
      [where ctx = ctx_provisioned and env = env_provisioned and w = world0
         and req = req_example and ?w1.0 = world_entry,
       THEN conjunct2, rule_format, OF conjI, OF e, OF conjI, OF f, OF conjI, OF i,
       OF conjI, OF z p]
  have r: "fst (Reconcile env_provisioned req_example world0) = Returned empty_result None"
    using whole [THEN conjunct1] by (simp add: q)
  have s: "Status_Ready (fst (snd (Reconcile env_provisioned req_example world0)))"
    using whole [THEN conjunct2, THEN conjunct1] by (simp add: MarkTrue_def)
  show ?thesis
    by (intro conjI p e f i z n r s)
qed


end
